theory Spec2Isabelle
  imports Complex_Main "HOL-Library.Log_Nat"
begin

section \<open>Payment order lifecycle: data model\<close>

text \<open>
  The payment document of \<^verbatim>\<open>models/Payment.js\<close> and the handlers of
  \<^verbatim>\<open>controllers/paymentController.js\<close> and \<^verbatim>\<open>utils/razorpay.js\<close>.
  An amount is a JavaScript number that arrives in a JSON body: a finite double,
  modelled as the rational it denotes (\<^typ>\<open>rat\<close>). Comparisons of doubles are
  exact; their product is rounded to the nearest double. A field that may be
  \<^verbatim>\<open>undefined\<close> or \<^verbatim>\<open>null\<close> is an \<^typ>\<open>'a option\<close> where the code
  treats the two alike. Each request is handled as one atomic step on the state.
\<close>

datatype payment_status = Pending | Processing | Completed | Failed | Refunded | Cancelled

record item =
  itemType :: string
  itemId :: string
  itemName :: string
  quantity :: rat
  price :: rat

text \<open>The sub-object stored under the metadata key \<^verbatim>\<open>razorpayPayment\<close>.\<close>

record razorpay_details =
  rd_method :: "string option"
  rd_bank :: "string option"
  rd_wallet :: "string option"
  rd_vpa :: "string option"
  rd_email :: "string option"
  rd_contact :: "string option"

datatype meta_value = MetaText string | MetaRazorpay razorpay_details

text \<open>
  A JavaScript object used as an open bag: a finite map from keys to values. The
  order in which JavaScript enumerates the keys is not part of the model.
\<close>

type_synonym metadata_bag = "string \<rightharpoonup> meta_value"

type_synonym billing = "(string \<times> string) list"

record payment =
  payment_id :: nat
  user :: string
  userName :: string
  userEmail :: string
  orderId :: string
  transactionId :: "string option"
  amount :: rat
  currency :: "string option"
  paymentMethod :: string
  paymentStatus :: payment_status
  paymentGateway :: string
  items :: "item list"
  billingAddress :: "billing option"
  receiptUrl :: "string option"
  invoiceUrl :: "string option"
  refundAmount :: rat
  refundReason :: "string option"
  refundedAt :: "nat option"
  notes' :: "string option"
  metadata :: "metadata_bag option"

text \<open>The authenticated user the \<^verbatim>\<open>protect\<close> middleware puts on the request.\<close>

record auth_user =
  u_id :: string
  u_name :: string
  u_email :: string

section \<open>JavaScript numbers\<close>

text \<open>
  The result of an arithmetic operation on finite doubles: a finite double or an
  infinity (a product of finite doubles is never \<^verbatim>\<open>NaN\<close>; the sign of a zero
  is not modelled).
\<close>

datatype js_number = Finite rat | PosInfinity | NegInfinity

text \<open>Rounding to the nearest integer, a tie going to the even neighbour.\<close>

definition round_half_even :: "rat \<Rightarrow> int" where
  "round_half_even r =
     (let f = \<lfloor>r\<rfloor>; d = r - of_int f in
      if d < 1 / 2 then f else if 1 / 2 < d then f + 1 else if even f then f else f + 1)"

text \<open>
  IEEE 754 binary64, round to nearest, ties to even. For a positive \<open>x\<close> the
  binade of \<open>x\<close> is the exponent \<open>e\<close> with \<open>2 powi e \<le> x < 2 powi (e + 1)\<close>; the
  doubles around \<open>x\<close> are the multiples of \<open>2 powi (e - 52)\<close>, and of
  \<open>2 powi (- 1074)\<close> in the subnormal range; a result that reaches \<open>2 ^ 1024\<close> in
  magnitude overflows to an infinity.
\<close>

definition binade :: "rat \<Rightarrow> int" where
  "binade x = (if 1 \<le> x then bitlen \<lfloor>x\<rfloor> - 1 else - bitlen (\<lceil>1 / x\<rceil> - 1))"

definition quantum :: "rat \<Rightarrow> int" where
  "quantum x = max (binade \<bar>x\<bar> - 52) (- 1074)"

definition round_double :: "rat \<Rightarrow> js_number" where
  "round_double x =
     (if x = 0 then Finite 0
      else
        (let k = quantum x;
             y = of_int (round_half_even (x / 2 powi k)) * 2 powi k in
         if 2 ^ 1024 \<le> y then PosInfinity
         else if y \<le> - (2 ^ 1024) then NegInfinity
         else Finite y))"

text \<open>\<^verbatim>\<open>a * b\<close> on finite doubles.\<close>

definition js_times :: "rat \<Rightarrow> rat \<Rightarrow> js_number" where
  "js_times a b = round_double (a * b)"

section \<open>The gateway and the environment\<close>

record order_options =
  opt_amount :: js_number
  opt_currency :: "string option"
  opt_receipt :: string
  opt_notes :: metadata_bag

record gateway_order =
  ord_id :: string
  ord_amount :: js_number
  ord_currency :: "string option"
  ord_receipt :: "string option"
  ord_status :: string

text \<open>
  A Razorpay payment entity: what \<^verbatim>\<open>payments.fetch\<close> returns and what a
  \<^verbatim>\<open>payment.*\<close> webhook carries.
\<close>

record payment_entity =
  ent_id :: string
  ent_order_id :: string
  ent_status :: string
  ent_method :: "string option"
  ent_receipt :: "string option"
  ent_bank :: "string option"
  ent_wallet :: "string option"
  ent_vpa :: "string option"
  ent_email :: "string option"
  ent_contact :: "string option"
  ent_error_description :: "string option"

record order_entity =
  oent_id :: string

record refund_options =
  ropt_amount :: "js_number option"
  ropt_notes :: "metadata_bag option"

datatype gateway_call =
    OrdersCreate order_options
  | PaymentsFetch string
  | PaymentsRefund string refund_options

text \<open>
  A parsed webhook body: one of the three events the switch names, with its entity,
  or an event of any other type, given by that type, which falls to the default.
\<close>

datatype webhook_event =
    PaymentCaptured payment_entity
  | PaymentFailed payment_entity
  | OrderPaid order_entity
  | OtherEvent string

text \<open>
  What the code reaches outside itself: the process environment variables, the
  HMAC of Node's \<^verbatim>\<open>crypto\<close> (key, message, hex digest) and the message of the
  error \<^verbatim>\<open>crypto.createHmac\<close> throws when its key is \<^verbatim>\<open>undefined\<close>, the
  three calls of the Razorpay client (\<open>Inl\<close> is the message of the error thrown),
  the verdict of Mongoose and the database on a write (\<open>Some\<close> is the message of
  the error \<^verbatim>\<open>save\<close> or \<^verbatim>\<open>create\<close> throws: schema validation, unique
  indexes, connection), \<^verbatim>\<open>JSON.parse\<close> (\<open>Inl\<close> when it throws or the event has
  no usable payload) and \<^verbatim>\<open>JSON.stringify\<close>, and the clock.
\<close>

record env =
  RAZORPAY_KEY_ID :: "string option"
  RAZORPAY_KEY_SECRET :: "string option"
  RAZORPAY_WEBHOOK_SECRET :: "string option"
  hmac_sha256_hex :: "string \<Rightarrow> string \<Rightarrow> string"
  createHmac_key_error :: string
  orders_create :: "order_options \<Rightarrow> string + gateway_order"
  payments_fetch :: "string \<Rightarrow> string + payment_entity"
  payments_refund :: "string \<Rightarrow> refund_options \<Rightarrow> string + string"
  db_validate :: "payment list \<Rightarrow> payment \<Rightarrow> string option"
  json_parse :: "string \<Rightarrow> string + webhook_event"
  json_stringify :: "webhook_event \<Rightarrow> string"
  now :: nat

text \<open>
  The state: the payments collection, the next document id, and the calls made to
  the gateway so far, oldest first.
\<close>

record state =
  store :: "payment list"
  next_id :: nat
  gateway_calls :: "gateway_call list"

record response =
  status_code :: nat
  success :: bool
  message :: string
  err :: "string option"

definition respond :: "nat \<Rightarrow> bool \<Rightarrow> string \<Rightarrow> string option \<Rightarrow> response" where
  "respond c ok m e = \<lparr>status_code = c, success = ok, message = m, err = e\<rparr>"

section \<open>JavaScript helpers\<close>

text \<open>Truthiness of a string that may be absent: absent and empty are falsy.\<close>

definition truthy :: "string option \<Rightarrow> bool" where
  "truthy x = (case x of None \<Rightarrow> False | Some t \<Rightarrow> t \<noteq> [])"

text \<open>\<^verbatim>\<open>x || d\<close> on strings, with a string default and with \<^verbatim>\<open>null\<close>.\<close>

definition js_or :: "string option \<Rightarrow> string \<Rightarrow> string" where
  "js_or x d = (case x of None \<Rightarrow> d | Some t \<Rightarrow> if t = [] then d else t)"

definition js_or_null :: "string option \<Rightarrow> string option" where
  "js_or_null x = (if truthy x then x else None)"

text \<open>A number in a template literal: its decimal digits.\<close>

function show_nat :: "nat \<Rightarrow> string" where
  "show_nat n =
     (if n < 10 then [''0123456789'' ! n]
      else show_nat (n div 10) @ [''0123456789'' ! (n mod 10)])"
  by pat_completeness auto
termination
  by (relation "measure id") auto

declare show_nat.simps [simp del]

section \<open>The payments collection\<close>

text \<open>
  The collection is the list of its documents in insertion order.
  \<^verbatim>\<open>Payment.findById\<close> and \<^verbatim>\<open>Payment.findOne({ orderId })\<close> return the first
  document that matches; a lookup always answers, only a write can be refused.
\<close>

definition findById :: "nat \<Rightarrow> payment list \<Rightarrow> payment option" where
  "findById i ps = find (\<lambda>p. payment_id p = i) ps"

definition findOne_orderId :: "string \<Rightarrow> payment list \<Rightarrow> payment option" where
  "findOne_orderId oid ps = find (\<lambda>p. orderId p = oid) ps"

text \<open>\<^verbatim>\<open>payment.save()\<close> writes the document back under its \<^verbatim>\<open>_id\<close>.\<close>

definition save :: "payment \<Rightarrow> payment list \<Rightarrow> payment list" where
  "save p ps = map (\<lambda>q. if payment_id q = payment_id p then p else q) ps"

text \<open>
  What the schema of \<^verbatim>\<open>models/Payment.js\<close> declares for a document: the required
  strings, the minimum of the amount, the three enumerations, and the unique indexes
  on the order id and (sparse) on the transaction id, checked against the other
  documents of the collection. Casting of values to the declared types is not
  modelled.
\<close>

definition paymentMethod_enum :: "string list" where
  "paymentMethod_enum =
     [''credit_card'', ''debit_card'', ''upi'', ''netbanking'', ''wallet'', ''cash'', ''other'']"

definition paymentGateway_enum :: "string list" where
  "paymentGateway_enum = [''razorpay'', ''stripe'', ''paypal'', ''cashfree'', ''manual'', ''other'']"

definition itemType_enum :: "string list" where
  "itemType_enum =
     [''course'', ''certification'', ''placement_training'', ''workshop'', ''membership'', ''other'']"

definition item_valid :: "item \<Rightarrow> bool" where
  "item_valid i \<longleftrightarrow> itemType i \<in> set itemType_enum \<and> itemId i \<noteq> [] \<and> itemName i \<noteq> []"

definition index_clash :: "payment \<Rightarrow> payment \<Rightarrow> bool" where
  "index_clash p q \<longleftrightarrow>
     payment_id q \<noteq> payment_id p
     \<and> (orderId q = orderId p \<or> (transactionId p \<noteq> None \<and> transactionId q = transactionId p))"

definition schema_accepts :: "payment list \<Rightarrow> payment \<Rightarrow> bool" where
  "schema_accepts ps p \<longleftrightarrow>
     user p \<noteq> [] \<and> userName p \<noteq> [] \<and> userEmail p \<noteq> [] \<and> orderId p \<noteq> []
     \<and> 0 \<le> amount p
     \<and> paymentMethod p \<in> set paymentMethod_enum
     \<and> paymentGateway p \<in> set paymentGateway_enum
     \<and> list_all item_valid (items p)
     \<and> list_all (\<lambda>q. \<not> index_clash p q) ps"

definition db_save :: "env \<Rightarrow> payment \<Rightarrow> state \<Rightarrow> string + state" where
  "db_save env p s =
     (case db_validate env (store s) p of
        Some m \<Rightarrow> Inl m
      | None \<Rightarrow> Inr (s\<lparr>store := save p (store s)\<rparr>))"

text \<open>\<^verbatim>\<open>Payment.create(data)\<close>: a new document under a fresh \<^verbatim>\<open>_id\<close>.\<close>

definition db_create :: "env \<Rightarrow> payment \<Rightarrow> state \<Rightarrow> string + (payment \<times> state)" where
  "db_create env d s =
     (let p = d\<lparr>payment_id := next_id s\<rparr> in
      case db_validate env (store s) p of
        Some m \<Rightarrow> Inl m
      | None \<Rightarrow> Inr (p, s\<lparr>store := store s @ [p], next_id := Suc (next_id s)\<rparr>))"

section \<open>The gateway adapter (utils/razorpay.js)\<close>

text \<open>
  The adapter builds the Razorpay client on first use and throws when a credential
  is missing; with a fixed environment the cached client is not observable, so
  only the check is modelled. Every call that reaches the client is appended to
  \<^const>\<open>gateway_calls\<close>, whether the gateway then answers or throws. An error of
  the client is rethrown with the adapter's prefix. The callers in the controller
  always pass the currency (a string or \<^verbatim>\<open>null\<close>, never \<^verbatim>\<open>undefined\<close>) and
  the notes, so only the receipt keeps its default.
\<close>

definition getRazorpayInstance :: "env \<Rightarrow> string + unit" where
  "getRazorpayInstance env =
     (if \<not> truthy (RAZORPAY_KEY_ID env) \<or> \<not> truthy (RAZORPAY_KEY_SECRET env)
      then Inl ''Razorpay credentials not configured. Please set RAZORPAY_KEY_ID and RAZORPAY_KEY_SECRET in your .env file''
      else Inr ())"

definition called :: "gateway_call \<Rightarrow> state \<Rightarrow> state" where
  "called c s = s\<lparr>gateway_calls := gateway_calls s @ [c]\<rparr>"

definition createRazorpayOrder ::
  "env \<Rightarrow> rat \<Rightarrow> string option \<Rightarrow> string option \<Rightarrow> metadata_bag \<Rightarrow> state \<Rightarrow> (string + gateway_order) \<times> state" where
  "createRazorpayOrder env amt cur receipt nts s =
     (let options = \<lparr>opt_amount = js_times amt 100, opt_currency = cur,
                      opt_receipt = js_or receipt (''receipt_'' @ show_nat (now env)),
                      opt_notes = nts\<rparr> in
      case getRazorpayInstance env of
        Inl m \<Rightarrow> (Inl (''Error creating Razorpay order: '' @ m), s)
      | Inr _ \<Rightarrow>
          (case orders_create env options of
             Inl m \<Rightarrow> (Inl (''Error creating Razorpay order: '' @ m), called (OrdersCreate options) s)
           | Inr order \<Rightarrow> (Inr order, called (OrdersCreate options) s)))"

text \<open>
  \<^verbatim>\<open>crypto.createHmac\<close> throws on an undefined key and the adapter rethrows with
  its prefix; an empty key is a key.
\<close>

definition verifyPaymentSignature :: "env \<Rightarrow> string \<Rightarrow> string \<Rightarrow> string \<Rightarrow> string + bool" where
  "verifyPaymentSignature env oid pid sig =
     (case RAZORPAY_KEY_SECRET env of
        None \<Rightarrow> Inl (''Error verifying payment signature: '' @ createHmac_key_error env)
      | Some k \<Rightarrow> Inr (hmac_sha256_hex env k (oid @ ''|'' @ pid) = sig))"

definition getPaymentDetails :: "env \<Rightarrow> string \<Rightarrow> state \<Rightarrow> (string + payment_entity) \<times> state" where
  "getPaymentDetails env pid s =
     (case getRazorpayInstance env of
        Inl m \<Rightarrow> (Inl (''Error fetching payment details: '' @ m), s)
      | Inr _ \<Rightarrow>
          (case payments_fetch env pid of
             Inl m \<Rightarrow> (Inl (''Error fetching payment details: '' @ m), called (PaymentsFetch pid) s)
           | Inr p \<Rightarrow> (Inr p, called (PaymentsFetch pid) s)))"

definition refund_options_of :: "rat option \<Rightarrow> metadata_bag \<Rightarrow> refund_options" where
  "refund_options_of amt nts =
     \<lparr>ropt_amount = (case amt of None \<Rightarrow> None
                     | Some a \<Rightarrow> if a = 0 then None else Some (js_times a 100)),
      ropt_notes = (if nts \<noteq> Map.empty then Some nts else None)\<rparr>"


section \<open>The handlers (controllers/paymentController.js)\<close>

text \<open>
  Each handler takes the environment, the request and the state, and returns the
  response and the new state. A response is its HTTP status, the \<^verbatim>\<open>success\<close>
  flag, the message and the error text; the \<^verbatim>\<open>data\<close> payload, which echoes the
  document, is left out. The outer \<^verbatim>\<open>catch\<close> of a handler answers 500 and
  writes nothing.
\<close>

record create_payment_request =
  cp_orderId :: "string option"
  cp_transactionId :: "string option"
  cp_amount :: "rat option"
  cp_currency :: "string option"
  cp_paymentMethod :: "string option"
  cp_paymentGateway :: "string option"
  cp_items :: "item list option"
  cp_billingAddress :: "billing option"
  cp_metadata :: "metadata_bag option"

definition createPayment ::
  "env \<Rightarrow> auth_user \<Rightarrow> create_payment_request \<Rightarrow> state \<Rightarrow> response \<times> state" where
  "createPayment env usr req s =
     (let bad = (respond 400 False ''Please provide orderId, amount, paymentMethod, and items'' None, s) in
      case cp_orderId req of None \<Rightarrow> bad | Some oid \<Rightarrow>
      case cp_amount req of None \<Rightarrow> bad | Some amt \<Rightarrow>
      case cp_paymentMethod req of None \<Rightarrow> bad | Some pm \<Rightarrow>
      case cp_items req of None \<Rightarrow> bad | Some its \<Rightarrow>
        if oid = [] \<or> amt = 0 \<or> pm = [] \<or> length its = 0 then bad
        else
          (let paymentData =
             \<lparr>payment_id = 0, user = u_id usr, userName = u_name usr, userEmail = u_email usr,
              orderId = oid, transactionId = cp_transactionId req, amount = amt,
              currency = Some (js_or (cp_currency req) ''INR''), paymentMethod = pm,
              paymentStatus = Pending,
              paymentGateway = js_or (cp_paymentGateway req) ''razorpay'',
              items = its, billingAddress = cp_billingAddress req,
              receiptUrl = None, invoiceUrl = None, refundAmount = 0, refundReason = None,
              refundedAt = None, notes' = None, metadata = cp_metadata req\<rparr> in
           case db_create env paymentData s of
             Inl m \<Rightarrow> (respond 500 False ''Error creating payment'' (Some m), s)
           | Inr (p, s') \<Rightarrow> (respond 201 True ''Payment created successfully'' None, s')))"

record update_status_request =
  us_id :: nat
  us_paymentStatus :: "payment_status option"
  us_transactionId :: "string option"
  us_receiptUrl :: "string option"
  us_invoiceUrl :: "string option"
  us_notes :: "string option"

text \<open>The assignments of \<^verbatim>\<open>updatePaymentStatus\<close> to the document it found.\<close>

definition status_assignments :: "update_status_request \<Rightarrow> payment \<Rightarrow> payment" where
  "status_assignments req payment =
     (let p1 = (case us_paymentStatus req of
                  None \<Rightarrow> payment | Some st \<Rightarrow> payment\<lparr>paymentStatus := st\<rparr>);
          p2 = (if truthy (us_transactionId req)
                then p1\<lparr>transactionId := us_transactionId req\<rparr> else p1);
          p3 = (if truthy (us_receiptUrl req)
                then p2\<lparr>receiptUrl := us_receiptUrl req\<rparr> else p2);
          p4 = (if truthy (us_invoiceUrl req)
                then p3\<lparr>invoiceUrl := us_invoiceUrl req\<rparr> else p3) in
      if truthy (us_notes req) then p4\<lparr>notes' := us_notes req\<rparr> else p4)"

definition updatePaymentStatus ::
  "env \<Rightarrow> update_status_request \<Rightarrow> state \<Rightarrow> response \<times> state" where
  "updatePaymentStatus env req s =
     (case findById (us_id req) (store s) of
        None \<Rightarrow> (respond 404 False ''Payment not found'' None, s)
      | Some payment \<Rightarrow>
          (case db_save env (status_assignments req payment) s of
             Inl m \<Rightarrow> (respond 500 False ''Error updating payment status'' (Some m), s)
           | Inr s' \<Rightarrow> (respond 200 True ''Payment status updated successfully'' None, s')))"

record refund_request =
  rf_id :: nat
  rf_refundAmount :: "rat option"
  rf_refundReason :: "string option"
  rf_notes :: "string option"

text \<open>The assignments of \<^verbatim>\<open>processRefund\<close> to the document it found.\<close>

definition refund_assignments :: "env \<Rightarrow> refund_request \<Rightarrow> rat \<Rightarrow> payment \<Rightarrow> payment" where
  "refund_assignments env req ra payment =
     (let p1 = payment\<lparr>refundAmount := ra,
                 refundReason := Some (js_or (rf_refundReason req) ''Requested refund''),
                 refundedAt := Some (now env),
                 paymentStatus := Refunded\<rparr> in
      if truthy (rf_notes req) then p1\<lparr>notes' := rf_notes req\<rparr> else p1)"

definition processRefund ::
  "env \<Rightarrow> refund_request \<Rightarrow> state \<Rightarrow> response \<times> state" where
  "processRefund env req s =
     (case rf_refundAmount req of
        None \<Rightarrow> (respond 400 False ''Please provide a valid refund amount'' None, s)
      | Some ra \<Rightarrow>
          if ra = 0 \<or> ra \<le> 0
          then (respond 400 False ''Please provide a valid refund amount'' None, s)
          else
            (case findById (rf_id req) (store s) of
               None \<Rightarrow> (respond 404 False ''Payment not found'' None, s)
             | Some payment \<Rightarrow>
                 if paymentStatus payment \<noteq> Completed
                 then (respond 400 False ''Can only refund completed payments'' None, s)
                 else if refundAmount payment > 0
                 then (respond 400 False ''Payment has already been refunded'' None, s)
                 else if ra > amount payment
                 then (respond 400 False ''Refund amount cannot exceed payment amount'' None, s)
                 else
                   (case db_save env (refund_assignments env req ra payment) s of
                      Inl m \<Rightarrow> (respond 500 False ''Error processing refund'' (Some m), s)
                    | Inr s' \<Rightarrow> (respond 200 True ''Refund processed successfully'' None, s'))))"

text \<open>\<^verbatim>\<open>{...a, ...b}\<close>: the keys of \<open>b\<close> written over \<open>a\<close>.\<close>

definition spread :: "metadata_bag \<Rightarrow> metadata_bag option \<Rightarrow> metadata_bag" where
  "spread a b = a ++ (case b of None \<Rightarrow> Map.empty | Some m \<Rightarrow> m)"

text \<open>
  A body field with a destructuring default: the default replaces
  \<^verbatim>\<open>undefined\<close> (the field is absent) and not \<^verbatim>\<open>null\<close>.
\<close>

datatype 'a js_field = Undefined | Null | Value 'a

definition with_default :: "'a js_field \<Rightarrow> 'a \<Rightarrow> 'a option" where
  "with_default x d = (case x of Undefined \<Rightarrow> Some d | Null \<Rightarrow> None | Value v \<Rightarrow> Some v)"

record create_order_request =
  co_amount :: "rat option"
  co_currency :: "string js_field"
  co_items :: "item list option"
  co_billingAddress :: "billing option"
  co_metadata :: "metadata_bag option"

definition createRazorpayOrderHandler ::
  "env \<Rightarrow> auth_user \<Rightarrow> create_order_request \<Rightarrow> state \<Rightarrow> response \<times> state" where
  "createRazorpayOrderHandler env usr req s =
     (case co_amount req of
        None \<Rightarrow> (respond 400 False ''Please provide a valid amount'' None, s)
      | Some amt \<Rightarrow>
          if amt = 0 \<or> amt \<le> 0
          then (respond 400 False ''Please provide a valid amount'' None, s)
          else
            (case co_items req of
               None \<Rightarrow> (respond 400 False ''Please provide at least one item'' None, s)
             | Some its \<Rightarrow>
                 if length its = 0
                 then (respond 400 False ''Please provide at least one item'' None, s)
                 else
                   (let cur = with_default (co_currency req) ''INR'';
                        receiptId = ''receipt_'' @ show_nat (now env) @ ''_'' @ u_id usr;
                        nts = spread [''userId'' \<mapsto> MetaText (u_id usr),
                                      ''userName'' \<mapsto> MetaText (u_name usr),
                                      ''userEmail'' \<mapsto> MetaText (u_email usr)] (co_metadata req) in
                    case createRazorpayOrder env amt cur (Some receiptId) nts s of
                      (Inl m, s1) \<Rightarrow> (respond 500 False ''Error creating order'' (Some m), s1)
                    | (Inr razorpayOrder, s1) \<Rightarrow>
                        (let paymentData =
                           \<lparr>payment_id = 0, user = u_id usr, userName = u_name usr,
                            userEmail = u_email usr, orderId = ord_id razorpayOrder,
                            transactionId = None, amount = amt, currency = cur,
                            paymentMethod = ''upi'', paymentStatus = Pending,
                            paymentGateway = ''razorpay'', items = its,
                            billingAddress = co_billingAddress req,
                            receiptUrl = None, invoiceUrl = None, refundAmount = 0,
                            refundReason = None, refundedAt = None, notes' = None,
                            metadata = co_metadata req\<rparr> in
                         case db_create env paymentData s1 of
                           Inl m \<Rightarrow> (respond 500 False ''Error creating order'' (Some m), s1)
                         | Inr (p, s2) \<Rightarrow> (respond 201 True ''Order created successfully'' None, s2)))))"

text \<open>
  The gateway fields kept under \<^verbatim>\<open>razorpayPayment\<close>, and the merge
  \<^verbatim>\<open>{...payment.metadata, razorpayPayment: {...}}\<close>.
\<close>

definition razorpayPayment_of :: "payment_entity \<Rightarrow> razorpay_details" where
  "razorpayPayment_of e =
     \<lparr>rd_method = ent_method e, rd_bank = ent_bank e, rd_wallet = ent_wallet e,
      rd_vpa = ent_vpa e, rd_email = ent_email e, rd_contact = ent_contact e\<rparr>"

definition merge_metadata :: "metadata_bag option \<Rightarrow> payment_entity \<Rightarrow> metadata_bag" where
  "merge_metadata md e =
     (case md of None \<Rightarrow> Map.empty | Some m \<Rightarrow> m)
       (''razorpayPayment'' \<mapsto> MetaRazorpay (razorpayPayment_of e))"

text \<open>
  The assignments of \<^verbatim>\<open>verifyRazorpayPayment\<close> once the signature is valid
  and the gateway has returned the payment, and on an invalid signature.
\<close>

definition verified_assignments :: "string \<Rightarrow> payment_entity \<Rightarrow> payment \<Rightarrow> payment" where
  "verified_assignments pid razorpayPayment payment =
     (let p1 = payment\<lparr>transactionId := Some pid,
                 paymentStatus :=
                   (if ent_status razorpayPayment = ''captured'' then Completed else Processing),
                 paymentMethod := js_or (ent_method razorpayPayment) (paymentMethod payment)\<rparr> in
      if ent_status razorpayPayment = ''captured''
      then p1\<lparr>receiptUrl := js_or_null (ent_receipt razorpayPayment),
             metadata := Some (merge_metadata (metadata payment) razorpayPayment)\<rparr>
      else p1)"

definition invalid_signature_assignments :: "payment \<Rightarrow> payment" where
  "invalid_signature_assignments payment =
     payment\<lparr>paymentStatus := Failed,
       notes' := Some ''Payment verification failed: Invalid signature''\<rparr>"

record verify_request =
  v_orderId :: "string option"
  v_paymentId :: "string option"
  v_signature :: "string option"

definition verifyRazorpayPayment ::
  "env \<Rightarrow> auth_user \<Rightarrow> verify_request \<Rightarrow> state \<Rightarrow> response \<times> state" where
  "verifyRazorpayPayment env usr req s =
     (let bad = (respond 400 False ''Please provide orderId, paymentId, and signature'' None, s) in
      case v_orderId req of None \<Rightarrow> bad | Some oid \<Rightarrow>
      case v_paymentId req of None \<Rightarrow> bad | Some pid \<Rightarrow>
      case v_signature req of None \<Rightarrow> bad | Some sig \<Rightarrow>
        if oid = [] \<or> pid = [] \<or> sig = [] then bad
        else
          (case findOne_orderId oid (store s) of
             None \<Rightarrow> (respond 404 False ''Payment record not found'' None, s)
           | Some payment \<Rightarrow>
               if user payment \<noteq> u_id usr
               then (respond 403 False ''Not authorized to verify this payment'' None, s)
               else
                 (case verifyPaymentSignature env oid pid sig of
                    Inl m \<Rightarrow> (respond 500 False ''Error verifying payment'' (Some m), s)
                  | Inr isSignatureValid \<Rightarrow>
                      if \<not> isSignatureValid
                      then
                        (case db_save env (invalid_signature_assignments payment) s of
                           Inl m \<Rightarrow> (respond 500 False ''Error verifying payment'' (Some m), s)
                         | Inr s' \<Rightarrow>
                             (respond 400 False ''Payment verification failed: Invalid signature'' None, s'))
                      else
                        (case getPaymentDetails env pid s of
                           (Inl m, s1) \<Rightarrow> (respond 500 False ''Error verifying payment'' (Some m), s1)
                         | (Inr razorpayPayment, s1) \<Rightarrow>
                             (case db_save env (verified_assignments pid razorpayPayment payment) s1 of
                                Inl m \<Rightarrow> (respond 500 False ''Error verifying payment'' (Some m), s1)
                              | Inr s2 \<Rightarrow> (respond 200 True ''Payment verified successfully'' None, s2))))))"

text \<open>
  The three webhook helpers. Each has its own \<^verbatim>\<open>try/catch\<close> that logs and
  swallows an error of the write, so a refused write leaves the state as it was.
\<close>

definition captured_assignments :: "payment_entity \<Rightarrow> payment \<Rightarrow> payment" where
  "captured_assignments paymentEntity payment =
     payment\<lparr>transactionId := Some (ent_id paymentEntity),
       paymentStatus := Completed,
       paymentMethod := js_or (ent_method paymentEntity) (paymentMethod payment),
       receiptUrl := js_or_null (ent_receipt paymentEntity),
       metadata := Some (merge_metadata (metadata payment) paymentEntity)\<rparr>"

definition handlePaymentCaptured :: "env \<Rightarrow> payment_entity \<Rightarrow> state \<Rightarrow> state" where
  "handlePaymentCaptured env paymentEntity s =
     (case findOne_orderId (ent_order_id paymentEntity) (store s) of
        None \<Rightarrow> s
      | Some payment \<Rightarrow>
          (case db_save env (captured_assignments paymentEntity payment) s of
             Inl m \<Rightarrow> s
           | Inr s' \<Rightarrow> s'))"

definition failed_assignments :: "payment_entity \<Rightarrow> payment \<Rightarrow> payment" where
  "failed_assignments paymentEntity payment =
     payment\<lparr>transactionId := Some (ent_id paymentEntity),
       paymentStatus := Failed,
       notes' := Some (js_or (ent_error_description paymentEntity) ''Payment failed'')\<rparr>"

definition handlePaymentFailed :: "env \<Rightarrow> payment_entity \<Rightarrow> state \<Rightarrow> state" where
  "handlePaymentFailed env paymentEntity s =
     (case findOne_orderId (ent_order_id paymentEntity) (store s) of
        None \<Rightarrow> s
      | Some payment \<Rightarrow>
          (case db_save env (failed_assignments paymentEntity payment) s of
             Inl m \<Rightarrow> s
           | Inr s' \<Rightarrow> s'))"

definition handleOrderPaid :: "env \<Rightarrow> order_entity \<Rightarrow> state \<Rightarrow> state" where
  "handleOrderPaid env orderEntity s =
     (case findOne_orderId (oent_id orderEntity) (store s) of
        None \<Rightarrow> s
      | Some payment \<Rightarrow>
          if paymentStatus payment \<noteq> Completed
          then (case db_save env (payment\<lparr>paymentStatus := Completed\<rparr>) s of
                  Inl m \<Rightarrow> s
                | Inr s' \<Rightarrow> s')
          else s)"

text \<open>
  The webhook request: the \<^verbatim>\<open>x-razorpay-signature\<close> header and the body, which
  is the raw bytes (a \<^verbatim>\<open>Buffer\<close>) or an object already parsed.
\<close>

datatype webhook_body = Buffer string | Parsed webhook_event

record webhook_request =
  wh_signature :: "string option"
  wh_body :: webhook_body

definition dispatch :: "env \<Rightarrow> webhook_event \<Rightarrow> state \<Rightarrow> state" where
  "dispatch env event s =
     (case event of
        PaymentCaptured e \<Rightarrow> handlePaymentCaptured env e s
      | PaymentFailed e \<Rightarrow> handlePaymentFailed env e s
      | OrderPaid e \<Rightarrow> handleOrderPaid env e s
      | OtherEvent t \<Rightarrow> s)"

definition razorpayWebhook :: "env \<Rightarrow> webhook_request \<Rightarrow> state \<Rightarrow> response \<times> state" where
  "razorpayWebhook env req s =
     (case RAZORPAY_WEBHOOK_SECRET env of
        None \<Rightarrow> (respond 500 False ''Webhook secret not configured'' None, s)
      | Some webhookSecret \<Rightarrow>
          if webhookSecret = []
          then (respond 500 False ''Webhook secret not configured'' None, s)
          else
            (let webhookBody = (case wh_body req of
                                  Buffer raw \<Rightarrow> raw
                                | Parsed ev \<Rightarrow> json_stringify env ev);
                 expectedSignature = hmac_sha256_hex env webhookSecret webhookBody in
             if wh_signature req \<noteq> Some expectedSignature
             then (respond 400 False ''Invalid webhook signature'' None, s)
             else
               (case (case wh_body req of
                        Buffer raw \<Rightarrow> json_parse env webhookBody
                      | Parsed ev \<Rightarrow> Inr ev) of
                  Inl m \<Rightarrow> (respond 500 False ''Error processing webhook'' (Some m), s)
                | Inr event \<Rightarrow>
                    (respond 200 True ''Webhook processed'' None, dispatch env event s))))"

section \<open>Requests in sequence\<close>

text \<open>The routes of \<^verbatim>\<open>routes/payment.js\<close> that write, as operations on the state.\<close>

datatype operation =
    PostPayment auth_user create_payment_request
  | PutStatus update_status_request
  | PutRefund refund_request
  | PostCreateOrder auth_user create_order_request
  | PostVerify auth_user verify_request
  | PostWebhook webhook_request

definition handle :: "env \<Rightarrow> operation \<Rightarrow> state \<Rightarrow> response \<times> state" where
  "handle env op s =
     (case op of
        PostPayment usr req \<Rightarrow> createPayment env usr req s
      | PutStatus req \<Rightarrow> updatePaymentStatus env req s
      | PutRefund req \<Rightarrow> processRefund env req s
      | PostCreateOrder usr req \<Rightarrow> createRazorpayOrderHandler env usr req s
      | PostVerify usr req \<Rightarrow> verifyRazorpayPayment env usr req s
      | PostWebhook req \<Rightarrow> razorpayWebhook env req s)"

fun run :: "env \<Rightarrow> operation list \<Rightarrow> state \<Rightarrow> state" where
  "run env [] s = s"
| "run env (op # ops) s = run env ops (snd (handle env op s))"

section \<open>A worked scenario\<close>

text \<open>
  Test doubles for the environment and the requests of one order: 999 INR for one
  membership item, verified by the client, then refunded. The stand-in for the
  HMAC joins key and message; the database enforces the schema of the model and
  refuses nothing else; the gateway refuses every refund.
\<close>

definition example_entity :: "string \<Rightarrow> payment_entity" where
  "example_entity pid =
     \<lparr>ent_id = pid, ent_order_id = ''order_1'', ent_status = ''captured'',
      ent_method = Some ''upi'', ent_receipt = None, ent_bank = None, ent_wallet = None,
      ent_vpa = Some ''a@upi'', ent_email = Some ''a@example.com'',
      ent_contact = Some ''+919876543210'', ent_error_description = None\<rparr>"

definition schema_verdict :: "payment list \<Rightarrow> payment \<Rightarrow> string option" where
  "schema_verdict ps p = (if schema_accepts ps p then None else Some ''Payment validation failed'')"

definition example_env :: env where
  "example_env =
     \<lparr>RAZORPAY_KEY_ID = Some ''rzp_test_key'',
      RAZORPAY_KEY_SECRET = Some ''key_secret'',
      RAZORPAY_WEBHOOK_SECRET = Some ''webhook_secret'',
      hmac_sha256_hex = (\<lambda>k m. k @ ''/'' @ m),
      createHmac_key_error = ''The key argument is undefined'',
      orders_create = (\<lambda>opts. Inr \<lparr>ord_id = ''order_1'', ord_amount = opt_amount opts,
                                   ord_currency = opt_currency opts,
                                   ord_receipt = Some (opt_receipt opts), ord_status = ''created''\<rparr>),
      payments_fetch = (\<lambda>pid. Inr (example_entity pid)),
      payments_refund = (\<lambda>pid opts. Inl ''gateway unavailable''),
      db_validate = schema_verdict,
      json_parse = (\<lambda>raw. Inl ''Unexpected token''),
      json_stringify = (\<lambda>ev. ''{}''),
      now = 1700000000\<rparr>"

text \<open>
  The same environment with a gateway that reports the payment not yet captured,
  one that reports a card payment, and one whose fetch fails.
\<close>

definition authorized_env :: env where
  "authorized_env =
     example_env\<lparr>payments_fetch :=
       (\<lambda>pid. Inr ((example_entity pid)\<lparr>ent_status := ''authorized''\<rparr>))\<rparr>"

definition card_env :: env where
  "card_env =
     example_env\<lparr>payments_fetch :=
       (\<lambda>pid. Inr ((example_entity pid)\<lparr>ent_method := Some ''card'', ent_vpa := None\<rparr>))\<rparr>"

definition offline_env :: env where
  "offline_env = example_env\<lparr>payments_fetch := (\<lambda>pid. Inl ''connect ETIMEDOUT'')\<rparr>"

definition example_user :: auth_user where
  "example_user = \<lparr>u_id = ''u1'', u_name = ''Asha'', u_email = ''a@example.com''\<rparr>"

definition other_user :: auth_user where
  "other_user = \<lparr>u_id = ''u2'', u_name = ''Bala'', u_email = ''b@example.com''\<rparr>"

definition example_item :: item where
  "example_item = \<lparr>itemType = ''membership'', itemId = ''basic'', itemName = ''Basic Membership'',
                    quantity = 1, price = 999\<rparr>"

definition example_order_request :: create_order_request where
  "example_order_request =
     \<lparr>co_amount = Some 999, co_currency = Value ''INR'', co_items = Some [example_item],
      co_billingAddress = None, co_metadata = None\<rparr>"



definition empty_state :: state where
  "empty_state = \<lparr>store = [], next_id = 0, gateway_calls = []\<rparr>"

text \<open>The document of the scenario as the order handler creates it, and later.\<close>

definition example_pending :: payment where
  "example_pending =
     \<lparr>payment_id = 0, user = ''u1'', userName = ''Asha'', userEmail = ''a@example.com'',
      orderId = ''order_1'', transactionId = None, amount = 999, currency = Some ''INR'',
      paymentMethod = ''upi'', paymentStatus = Pending, paymentGateway = ''razorpay'',
      items = [example_item], billingAddress = None, receiptUrl = None, invoiceUrl = None,
      refundAmount = 0, refundReason = None, refundedAt = None, notes' = None,
      metadata = None\<rparr>"

definition example_completed :: payment where
  "example_completed =
     example_pending\<lparr>transactionId := Some ''pay_1'', paymentStatus := Completed,
       metadata := Some [''razorpayPayment'' \<mapsto>
         MetaRazorpay \<lparr>rd_method = Some ''upi'', rd_bank = None, rd_wallet = None,
                        rd_vpa = Some ''a@upi'', rd_email = Some ''a@example.com'',
                        rd_contact = Some ''+919876543210''\<rparr>]\<rparr>"

definition example_refunded :: payment where
  "example_refunded =
     example_completed\<lparr>refundAmount := 999, refundReason := Some ''Requested refund'',
       refundedAt := Some 1700000000, paymentStatus := Refunded\<rparr>"

definition example_cancelled :: payment where
  "example_cancelled = example_pending\<lparr>paymentStatus := Cancelled\<rparr>"

definition holding :: "payment \<Rightarrow> state" where
  "holding p = \<lparr>store = [p], next_id = 1, gateway_calls = []\<rparr>"

definition example_verify_request :: verify_request where
  "example_verify_request =
     \<lparr>v_orderId = Some ''order_1'', v_paymentId = Some ''pay_1'',
      v_signature = Some ''key_secret/order_1|pay_1''\<rparr>"

definition example_captured_webhook :: webhook_request where
  "example_captured_webhook =
     \<lparr>wh_signature = Some ''webhook_secret/{}'',
      wh_body = Parsed (PaymentCaptured (example_entity ''pay_1''))\<rparr>"


definition example_refund_request :: refund_request where
  "example_refund_request =
     \<lparr>rf_id = 0, rf_refundAmount = Some 999, rf_refundReason = None, rf_notes = None\<rparr>"

text \<open>Webhooks for an order id no document has, and of an event type not handled.\<close>

definition fabricated_failed_webhook :: webhook_request where
  "fabricated_failed_webhook =
     \<lparr>wh_signature = Some ''webhook_secret/{}'',
      wh_body = Parsed (PaymentFailed ((example_entity ''pay_9'')\<lparr>ent_order_id := ''order_fabricated''\<rparr>))\<rparr>"

definition other_event_webhook :: webhook_request where
  "other_event_webhook =
     \<lparr>wh_signature = Some ''webhook_secret/{}'', wh_body = Parsed (OtherEvent ''refund.created'')\<rparr>"

text \<open>
  A verification with a forged signature, a webhook without a signature, and refund
  requests for the amount 0: for the document of the scenario and for an id that no
  document has.
\<close>

definition forged_verify_request :: verify_request where
  "forged_verify_request =
     \<lparr>v_orderId = Some ''order_1'', v_paymentId = Some ''pay_1'', v_signature = Some ''forged''\<rparr>"

definition unsigned_webhook :: webhook_request where
  "unsigned_webhook =
     \<lparr>wh_signature = None, wh_body = Parsed (PaymentCaptured (example_entity ''pay_1''))\<rparr>"

definition zero_refund_request :: refund_request where
  "zero_refund_request =
     \<lparr>rf_id = 0, rf_refundAmount = Some 0, rf_refundReason = None, rf_notes = None\<rparr>"

definition stray_zero_refund_request :: refund_request where
  "stray_zero_refund_request =
     \<lparr>rf_id = 7, rf_refundAmount = Some 0, rf_refundReason = None, rf_notes = None\<rparr>"

text \<open>A \<^verbatim>\<open>payment.failed\<close> webhook for the order of the scenario.\<close>

definition example_failed_webhook :: webhook_request where
  "example_failed_webhook =
     \<lparr>wh_signature = Some ''webhook_secret/{}'',
      wh_body = Parsed (PaymentFailed ((example_entity ''pay_2'')
                  \<lparr>ent_status := ''failed'', ent_error_description := Some ''Payment declined''\<rparr>))\<rparr>"

text \<open>A status update that marks the document refunded, and an \<^verbatim>\<open>order.paid\<close> webhook.\<close>

definition mark_refunded_request :: update_status_request where
  "mark_refunded_request =
     \<lparr>us_id = 0, us_paymentStatus = Some Refunded, us_transactionId = None,
      us_receiptUrl = None, us_invoiceUrl = None, us_notes = None\<rparr>"

definition example_order_paid_webhook :: webhook_request where
  "example_order_paid_webhook =
     \<lparr>wh_signature = Some ''webhook_secret/{}'',
      wh_body = Parsed (OrderPaid \<lparr>oent_id = ''order_1''\<rparr>)\<rparr>"

section \<open>Relations between a document before and after an operation\<close>

text \<open>
  A gateway-driven write keeps the document's id and leaves its status or sets it
  to completed, failed or processing; a completed document stays completed; the
  refund changes a status only from completed to refunded.
\<close>

definition gateway_step :: "payment \<Rightarrow> payment \<Rightarrow> bool" where
  "gateway_step q q' \<longleftrightarrow>
     payment_id q' = payment_id q
     \<and> (paymentStatus q' = paymentStatus q \<or> paymentStatus q' \<in> {Completed, Failed, Processing})"

definition stays_completed :: "payment \<Rightarrow> payment \<Rightarrow> bool" where
  "stays_completed q q' \<longleftrightarrow> (paymentStatus q = Completed \<longrightarrow> paymentStatus q' = Completed)"

definition refund_step :: "payment \<Rightarrow> payment \<Rightarrow> bool" where
  "refund_step q q' \<longleftrightarrow>
     paymentStatus q' = paymentStatus q
     \<or> (paymentStatus q = Completed \<and> paymentStatus q' = Refunded)"


section \<open>The refund fields\<close>

text \<open>
  The refund fields of a document are set when the amount is positive and reason and
  date are present, and empty when the amount is 0 and reason and date are absent.
\<close>

definition refund_fields_set :: "payment \<Rightarrow> bool" where
  "refund_fields_set p \<longleftrightarrow> 0 < refundAmount p \<and> refundReason p \<noteq> None \<and> refundedAt p \<noteq> None"

definition refund_fields_empty :: "payment \<Rightarrow> bool" where
  "refund_fields_empty p \<longleftrightarrow> refundAmount p = 0 \<and> refundReason p = None \<and> refundedAt p = None"

definition same_refund_fields :: "payment \<Rightarrow> payment \<Rightarrow> bool" where
  "same_refund_fields p p' \<longleftrightarrow>
     refundAmount p' = refundAmount p \<and> refundReason p' = refundReason p
     \<and> refundedAt p' = refundedAt p"

definition is_status_update :: "operation \<Rightarrow> bool" where
  "is_status_update op = (case op of PutStatus req \<Rightarrow> True | _ \<Rightarrow> False)"

definition is_refund :: "operation \<Rightarrow> bool" where
  "is_refund op = (case op of PutRefund req \<Rightarrow> True | _ \<Rightarrow> False)"

text \<open>
  What an operation may do to the refund fields of the document it rewrites: leave
  them as they are, or, for the refund operation on a completed document, set them
  together with the status refunded. The id stays.
\<close>

definition refund_fields_step :: "operation \<Rightarrow> payment \<Rightarrow> payment \<Rightarrow> bool" where
  "refund_fields_step op q q' \<longleftrightarrow>
     payment_id q' = payment_id q
     \<and> (same_refund_fields q q'
        \<or> (is_refund op \<and> paymentStatus q = Completed \<and> refund_fields_set q'
           \<and> paymentStatus q' = Refunded))"

text \<open>A document as an operation creates it: empty refund fields, status pending.\<close>

definition fresh_document :: "payment \<Rightarrow> bool" where
  "fresh_document p \<longleftrightarrow> refund_fields_empty p \<and> paymentStatus p = Pending"

text \<open>
  The rewrite of one document by an operation: the refund fields as above, and a
  status that is completed, failed or processing unless the operation is the status
  update or the refund.
\<close>

definition rewrite_ok :: "operation \<Rightarrow> payment \<Rightarrow> payment \<Rightarrow> bool" where
  "rewrite_ok op p p' \<longleftrightarrow>
     refund_fields_step op p p'
     \<and> (paymentStatus p' \<in> {Completed, Failed, Processing} \<or> is_status_update op \<or> is_refund op)
     \<and> (is_refund op \<longrightarrow> paymentStatus p' = Refunded \<and> refund_fields_set p')"

text \<open>
  The three shapes of a step on the collection and the next id: nothing is written;
  one document of the collection is written back under its id; one document is
  added under the next id.
\<close>

definition store_rel :: "operation \<Rightarrow> payment list \<Rightarrow> nat \<Rightarrow> payment list \<Rightarrow> nat \<Rightarrow> bool" where
  "store_rel op ps n ps' n' \<longleftrightarrow>
     (ps' = ps \<and> n' = n)
     \<or> (\<exists>p \<in> set ps. \<exists>p'. rewrite_ok op p p' \<and> ps' = save p' ps \<and> n' = n)
     \<or> (\<exists>p'. fresh_document p' \<and> payment_id p' = n \<and> ps' = ps @ [p'] \<and> n' = Suc n)"

definition store_step :: "operation \<Rightarrow> state \<Rightarrow> state \<Rightarrow> bool" where
  "store_step op s s' \<longleftrightarrow> store_rel op (store s) (next_id s) (store s') (next_id s')"

text \<open>The ids of the collection are distinct and below the next id.\<close>

definition ids_fresh :: "state \<Rightarrow> bool" where
  "ids_fresh s \<longleftrightarrow>
     distinct (map payment_id (store s)) \<and> (\<forall>p \<in> set (store s). payment_id p < next_id s)"

definition refund_fields_consistent :: "payment \<Rightarrow> bool" where
  "refund_fields_consistent p \<longleftrightarrow> refund_fields_empty p \<or> refund_fields_set p"

section \<open>Properties\<close>

subsection \<open>Rounding to a double\<close>

lemma round_half_even_of_int [simp]: "round_half_even (of_int m) = m"
  by (simp add: round_half_even_def)











subsection \<open>Lookups, writes and the scenario\<close>

lemmas example_defs =
  example_env_def example_entity_def example_user_def example_item_def example_pending_def
  example_completed_def example_refunded_def holding_def

lemmas schema_defs =
  schema_verdict_def schema_accepts_def paymentMethod_enum_def paymentGateway_enum_def
  itemType_enum_def item_valid_def index_clash_def

lemma findOne_orderId_save:
  "findOne_orderId oid ps = Some p \<Longrightarrow> orderId p' = oid \<Longrightarrow> payment_id p' = payment_id p \<Longrightarrow>
     findOne_orderId oid (save p' ps) = Some p'"
  by (induction ps) (auto simp: findOne_orderId_def save_def split: if_splits)

lemma findOne_orderId_orderId: "findOne_orderId oid ps = Some p \<Longrightarrow> orderId p = oid"
  by (induction ps) (auto simp: findOne_orderId_def split: if_splits)

lemma save_idem: "save p (save p ps) = save p ps"
  by (induction ps) (auto simp: save_def)

lemma js_or_idem: "js_or x (js_or x d) = js_or x d"
  by (simp add: js_or_def split: option.splits)

lemma merge_metadata_idem: "merge_metadata (Some (merge_metadata md e)) e = merge_metadata md e"
  by (simp add: merge_metadata_def)

lemma captured_assignments_idem:
  "captured_assignments e (captured_assignments e p) = captured_assignments e p"
  by (simp add: captured_assignments_def js_or_idem merge_metadata_idem)

lemma failed_assignments_idem:
  "failed_assignments e (failed_assignments e p) = failed_assignments e p"
  by (simp add: failed_assignments_def)

subsection \<open>Amounts sent to the gateway\<close>








subsection \<open>Repeated webhook deliveries\<close>

text \<open>A write that keeps the document's id and order id, applied twice, is applied once.\<close>

lemma save_twice:
  assumes found: "findOne_orderId oid (store s) = Some p"
    and idem: "f (f p) = f p"
    and keeps: "orderId (f p) = orderId p" "payment_id (f p) = payment_id p"
    and once: "db_save env (f p) s = Inr s1"
  shows "findOne_orderId oid (store s1) = Some (f p)"
    and "(case db_save env (f (f p)) s1 of Inl m \<Rightarrow> s1 | Inr s2 \<Rightarrow> s2) = s1"
proof -
  from once have s1: "s1 = s\<lparr>store := save (f p) (store s)\<rparr>"
    by (auto simp: db_save_def split: option.splits)
  from found keeps show "findOne_orderId oid (store s1) = Some (f p)"
    unfolding s1 by (simp add: findOne_orderId_save findOne_orderId_orderId)
  show "(case db_save env (f (f p)) s1 of Inl m \<Rightarrow> s1 | Inr s2 \<Rightarrow> s2) = s1"
    unfolding s1 by (simp add: idem db_save_def save_idem split: option.splits)
qed

lemma handlePaymentCaptured_idem:
  "handlePaymentCaptured env e (handlePaymentCaptured env e s) = handlePaymentCaptured env e s"
proof (cases "findOne_orderId (ent_order_id e) (store s)")
  case None
  then show ?thesis by (simp add: handlePaymentCaptured_def)
next
  case (Some p)
  show ?thesis
  proof (cases "db_save env (captured_assignments e p) s")
    case (Inl m)
    with Some show ?thesis by (simp add: handlePaymentCaptured_def)
  next
    case (Inr s1)
    have once: "handlePaymentCaptured env e s = s1"
      using Some Inr by (simp add: handlePaymentCaptured_def)
    from save_twice [OF Some captured_assignments_idem _ _ Inr]
    show ?thesis
      unfolding once by (simp add: handlePaymentCaptured_def captured_assignments_def)
  qed
qed

lemma handlePaymentFailed_idem:
  "handlePaymentFailed env e (handlePaymentFailed env e s) = handlePaymentFailed env e s"
proof (cases "findOne_orderId (ent_order_id e) (store s)")
  case None
  then show ?thesis by (simp add: handlePaymentFailed_def)
next
  case (Some p)
  show ?thesis
  proof (cases "db_save env (failed_assignments e p) s")
    case (Inl m)
    with Some show ?thesis by (simp add: handlePaymentFailed_def)
  next
    case (Inr s1)
    have once: "handlePaymentFailed env e s = s1"
      using Some Inr by (simp add: handlePaymentFailed_def)
    from save_twice [OF Some failed_assignments_idem _ _ Inr]
    show ?thesis
      unfolding once by (simp add: handlePaymentFailed_def failed_assignments_def)
  qed
qed

lemma handleOrderPaid_idem:
  "handleOrderPaid env e (handleOrderPaid env e s) = handleOrderPaid env e s"
proof (cases "findOne_orderId (oent_id e) (store s)")
  case None
  then show ?thesis by (simp add: handleOrderPaid_def)
next
  case (Some p)
  show ?thesis
  proof (cases "paymentStatus p = Completed")
    case True
    with Some show ?thesis by (simp add: handleOrderPaid_def)
  next
    case False
    show ?thesis
    proof (cases "db_save env (p\<lparr>paymentStatus := Completed\<rparr>) s")
      case (Inl m)
      with Some False show ?thesis by (simp add: handleOrderPaid_def)
    next
      case (Inr s1)
      have once: "handleOrderPaid env e s = s1"
        using Some False Inr by (simp add: handleOrderPaid_def)
      have "findOne_orderId (oent_id e) (store s1) = Some (p\<lparr>paymentStatus := Completed\<rparr>)"
        using save_twice(1) [where f = "\<lambda>q. q\<lparr>paymentStatus := Completed\<rparr>" and p = p
            and s = s and env = env and oid = "oent_id e" and ?s1.0 = s1] Some Inr
        by simp
      then show ?thesis
        unfolding once by (simp add: handleOrderPaid_def)
    qed
  qed
qed

lemma dispatch_idem: "dispatch env ev (dispatch env ev s) = dispatch env ev s"
  by (cases ev)
    (simp_all add: dispatch_def handlePaymentCaptured_idem handlePaymentFailed_idem handleOrderPaid_idem)

text \<open>
  Claim C5. Handling the same \<^verbatim>\<open>payment.captured\<close> event a second time leaves
  the state as the first handling left it, and the webhook endpoint, given the same
  request again, returns the same response and the same state: after a first delivery
  answered with success, a repeated delivery is answered with success and changes
  nothing.
\<close>

theorem captured_webhook_idempotent:
  "handlePaymentCaptured env e (handlePaymentCaptured env e s) = handlePaymentCaptured env e s
   \<and> razorpayWebhook env req (snd (razorpayWebhook env req s)) = razorpayWebhook env req s"
  by (simp add: handlePaymentCaptured_idem razorpayWebhook_def Let_def dispatch_idem
      split: option.splits sum.splits webhook_body.splits)

lemma example_captured_webhook_run:
  "razorpayWebhook example_env example_captured_webhook (holding example_pending)
     = (respond 200 True ''Webhook processed'' None, holding example_completed)"
  by (simp add: razorpayWebhook_def dispatch_def handlePaymentCaptured_def findOne_orderId_def
      db_save_def save_def captured_assignments_def merge_metadata_def razorpayPayment_of_def
      js_or_def js_or_null_def truthy_def example_captured_webhook_def example_defs Let_def
      schema_defs)

theorem captured_webhook_idempotent_witness:
  "razorpayWebhook example_env example_captured_webhook (holding example_pending)
     = (respond 200 True ''Webhook processed'' None, holding example_completed)
   \<and> razorpayWebhook example_env example_captured_webhook (holding example_completed)
     = (respond 200 True ''Webhook processed'' None, holding example_completed)"
  using captured_webhook_idempotent
    [of example_env "example_entity ''pay_1''" "holding example_pending" example_captured_webhook]
  by (simp add: example_captured_webhook_run)

subsection \<open>Webhooks that match nothing\<close>

text \<open>
  Claim C9. A webhook whose signature is valid and whose event names an order id that
  no document has, or is of a type other than \<^verbatim>\<open>payment.captured\<close>,
  \<^verbatim>\<open>payment.failed\<close> and \<^verbatim>\<open>order.paid\<close>, is answered with success and
  leaves the state as it was: no document is created or changed.
\<close>

theorem unknown_webhook_discarded:
  assumes secret: "RAZORPAY_WEBHOOK_SECRET env = Some secret" "secret \<noteq> []"
    and signed: "wh_signature req =
        Some (hmac_sha256_hex env secret
               (case wh_body req of Buffer raw \<Rightarrow> raw | Parsed ev \<Rightarrow> json_stringify env ev))"
    and event: "(case wh_body req of Buffer raw \<Rightarrow> json_parse env raw | Parsed ev \<Rightarrow> Inr ev) = Inr event"
    and unknown: "case event of
          PaymentCaptured e \<Rightarrow> findOne_orderId (ent_order_id e) (store s) = None
        | PaymentFailed e \<Rightarrow> findOne_orderId (ent_order_id e) (store s) = None
        | OrderPaid e \<Rightarrow> findOne_orderId (oent_id e) (store s) = None
        | OtherEvent t \<Rightarrow> True"
  shows "razorpayWebhook env req s = (respond 200 True ''Webhook processed'' None, s)"
proof -
  have "dispatch env event s = s"
    using unknown
    by (cases event)
      (simp_all add: dispatch_def handlePaymentCaptured_def handlePaymentFailed_def
        handleOrderPaid_def)
  with secret signed event show ?thesis
    by (cases "wh_body req") (simp_all add: razorpayWebhook_def Let_def)
qed

theorem unknown_webhook_discarded_witness:
  "razorpayWebhook example_env fabricated_failed_webhook (holding example_pending)
     = (respond 200 True ''Webhook processed'' None, holding example_pending)
   \<and> razorpayWebhook example_env other_event_webhook (holding example_pending)
     = (respond 200 True ''Webhook processed'' None, holding example_pending)"
proof
  show "razorpayWebhook example_env fabricated_failed_webhook (holding example_pending)
     = (respond 200 True ''Webhook processed'' None, holding example_pending)"
    by (rule unknown_webhook_discarded [where secret = "''webhook_secret''"
          and event = "PaymentFailed ((example_entity ''pay_9'')\<lparr>ent_order_id := ''order_fabricated''\<rparr>)"])
      (simp_all add: fabricated_failed_webhook_def example_defs findOne_orderId_def)
  show "razorpayWebhook example_env other_event_webhook (holding example_pending)
     = (respond 200 True ''Webhook processed'' None, holding example_pending)"
    by (rule unknown_webhook_discarded [where secret = "''webhook_secret''"
          and event = "OtherEvent ''refund.created''"])
      (simp_all add: other_event_webhook_def example_defs)
qed

subsection \<open>Client verification\<close>

lemma getPaymentDetails_ok:
  "getRazorpayInstance env = Inr () \<Longrightarrow> payments_fetch env pid = Inr rp \<Longrightarrow>
     getPaymentDetails env pid s = (Inr rp, called (PaymentsFetch pid) s)"
  by (simp add: getPaymentDetails_def)

text \<open>
  A verification of the owner with a valid signature, once the gateway has returned
  the payment: the answer and the state after it, by the verdict of the database on
  the write.
\<close>

lemma verifyRazorpayPayment_valid:
  assumes "v_orderId req = Some oid" "v_paymentId req = Some pid" "v_signature req = Some sig"
      "oid \<noteq> []" "pid \<noteq> []" "sig \<noteq> []"
    and "findOne_orderId oid (store s) = Some p"
    and "user p = u_id usr"
    and "verifyPaymentSignature env oid pid sig = Inr True"
    and "getRazorpayInstance env = Inr ()" "payments_fetch env pid = Inr rp"
  shows "verifyRazorpayPayment env usr req s
           = (case db_validate env (store s) (verified_assignments pid rp p) of
                None \<Rightarrow> (respond 200 True ''Payment verified successfully'' None,
                          (called (PaymentsFetch pid) s)
                            \<lparr>store := save (verified_assignments pid rp p) (store s)\<rparr>)
              | Some m \<Rightarrow> (respond 500 False ''Error verifying payment'' (Some m),
                            called (PaymentsFetch pid) s))"
  using assms
  by (simp add: verifyRazorpayPayment_def Let_def getPaymentDetails_ok db_save_def called_def
      split: option.splits)

lemma verified_assignments_captured:
  "ent_status rp = ''captured'' \<Longrightarrow>
     verified_assignments pid rp p
       = p\<lparr>transactionId := Some pid, paymentStatus := Completed,
            paymentMethod := (case ent_method rp of None \<Rightarrow> paymentMethod p
                              | Some m \<Rightarrow> if m = [] then paymentMethod p else m),
            receiptUrl := (case ent_receipt rp of None \<Rightarrow> None
                           | Some u \<Rightarrow> if u = [] then None else Some u),
            metadata := Some ((case metadata p of None \<Rightarrow> Map.empty | Some m \<Rightarrow> m)
                          (''razorpayPayment'' \<mapsto> MetaRazorpay
                             \<lparr>rd_method = ent_method rp, rd_bank = ent_bank rp,
                              rd_wallet = ent_wallet rp, rd_vpa = ent_vpa rp,
                              rd_email = ent_email rp, rd_contact = ent_contact rp\<rparr>))\<rparr>"
  by (simp add: verified_assignments_def Let_def merge_metadata_def razorpayPayment_of_def
      js_or_def js_or_null_def truthy_def split: option.splits)

lemma verified_assignments_not_captured:
  "ent_status rp \<noteq> ''captured'' \<Longrightarrow>
     verified_assignments pid rp p
       = p\<lparr>transactionId := Some pid, paymentStatus := Processing,
            paymentMethod := (case ent_method rp of None \<Rightarrow> paymentMethod p
                              | Some m \<Rightarrow> if m = [] then paymentMethod p else m)\<rparr>"
  by (simp add: verified_assignments_def Let_def js_or_def split: option.splits)

lemma example_verify_run:
  "verifyRazorpayPayment example_env example_user example_verify_request (holding example_pending)
     = (respond 200 True ''Payment verified successfully'' None,
        (holding example_completed)\<lparr>gateway_calls := [PaymentsFetch ''pay_1'']\<rparr>)"
  by (simp add: verifyRazorpayPayment_def verifyPaymentSignature_def getPaymentDetails_def
      getRazorpayInstance_def called_def findOne_orderId_def db_save_def save_def
      verified_assignments_def merge_metadata_def razorpayPayment_of_def js_or_def js_or_null_def
      truthy_def example_verify_request_def example_defs Let_def schema_defs)

text \<open>
  Claim C7 as stated fails: a valid signature on a pending document is not enough.
  A caller who is not the owner is answered 403; when the gateway cannot be reached
  the answer is 500; and when the gateway reports the method \<^verbatim>\<open>card\<close>, which
  the enumeration of the schema does not list, the database refuses the write and
  the answer is 500. In the three cases the document keeps its status and has no
  transaction id.
\<close>

theorem valid_signature_not_sufficient:
  "verifyPaymentSignature example_env ''order_1'' ''pay_1'' ''key_secret/order_1|pay_1'' = Inr True
   \<and> paymentStatus example_pending = Pending \<and> transactionId example_pending = None
   \<and> verifyRazorpayPayment example_env other_user example_verify_request (holding example_pending)
       = (respond 403 False ''Not authorized to verify this payment'' None, holding example_pending)
   \<and> verifyRazorpayPayment offline_env example_user example_verify_request (holding example_pending)
       = (respond 500 False ''Error verifying payment''
            (Some ''Error fetching payment details: connect ETIMEDOUT''),
          (holding example_pending)\<lparr>gateway_calls := [PaymentsFetch ''pay_1'']\<rparr>)
   \<and> verifyRazorpayPayment card_env example_user example_verify_request (holding example_pending)
       = (respond 500 False ''Error verifying payment'' (Some ''Payment validation failed''),
          (holding example_pending)\<lparr>gateway_calls := [PaymentsFetch ''pay_1'']\<rparr>)"
  by (simp add: verifyRazorpayPayment_def verifyPaymentSignature_def getPaymentDetails_def
      getRazorpayInstance_def called_def findOne_orderId_def db_save_def save_def
      verified_assignments_def merge_metadata_def razorpayPayment_of_def js_or_def js_or_null_def
      truthy_def example_verify_request_def example_defs Let_def schema_defs
      other_user_def offline_env_def card_env_def)

text \<open>
  Claim C7, amended. A client verification with a valid signature, made by the owner
  of a document found by its order id (whatever its status, pending and processing
  included), for which the gateway returns the payment and the database accepts the
  write, is answered with success and writes that document back, and nothing else.
  The document written has the submitted payment id as its transaction id and the
  gateway's method as its payment method when the gateway gives one; when the
  gateway reports \<^verbatim>\<open>captured\<close> its status is completed, its receipt is the
  gateway's, and the gateway's method, bank, wallet, vpa, email and contact are
  stored under the metadata key \<^verbatim>\<open>razorpayPayment\<close>, the other keys kept;
  otherwise its status is processing and receipt and metadata are unchanged.
\<close>

theorem verification_updates_record:
  assumes request: "v_orderId req = Some oid" "v_paymentId req = Some pid" "v_signature req = Some sig"
      "oid \<noteq> []" "pid \<noteq> []" "sig \<noteq> []"
    and found: "findOne_orderId oid (store s) = Some p"
    and owner: "user p = u_id usr"
    and valid: "verifyPaymentSignature env oid pid sig = Inr True"
    and gateway: "getRazorpayInstance env = Inr ()" "payments_fetch env pid = Inr rp"
    and written: "p' =
       (if ent_status rp = ''captured''
        then p\<lparr>transactionId := Some pid, paymentStatus := Completed,
               paymentMethod := (case ent_method rp of None \<Rightarrow> paymentMethod p
                                 | Some m \<Rightarrow> if m = [] then paymentMethod p else m),
               receiptUrl := (case ent_receipt rp of None \<Rightarrow> None
                              | Some u \<Rightarrow> if u = [] then None else Some u),
               metadata := Some ((case metadata p of None \<Rightarrow> Map.empty | Some m \<Rightarrow> m)
                             (''razorpayPayment'' \<mapsto> MetaRazorpay
                                \<lparr>rd_method = ent_method rp, rd_bank = ent_bank rp,
                                 rd_wallet = ent_wallet rp, rd_vpa = ent_vpa rp,
                                 rd_email = ent_email rp, rd_contact = ent_contact rp\<rparr>))\<rparr>
        else p\<lparr>transactionId := Some pid, paymentStatus := Processing,
               paymentMethod := (case ent_method rp of None \<Rightarrow> paymentMethod p
                                 | Some m \<Rightarrow> if m = [] then paymentMethod p else m)\<rparr>)"
    and accepted: "db_validate env (store s) p' = None"
  shows "verifyRazorpayPayment env usr req s
           = (respond 200 True ''Payment verified successfully'' None,
              s\<lparr>store := save p' (store s),
                gateway_calls := gateway_calls s @ [PaymentsFetch pid]\<rparr>)
         \<and> findOne_orderId oid (save p' (store s)) = Some p'"
proof -
  have p': "p' = verified_assignments pid rp p"
    unfolding written
    by (cases "ent_status rp = ''captured''")
      (simp_all add: verified_assignments_captured verified_assignments_not_captured)
  have keeps: "orderId p' = oid" "payment_id p' = payment_id p"
    using findOne_orderId_orderId [OF found] by (simp_all add: p' verified_assignments_def Let_def)
  have "verifyRazorpayPayment env usr req s
           = (respond 200 True ''Payment verified successfully'' None,
              s\<lparr>store := save p' (store s),
                gateway_calls := gateway_calls s @ [PaymentsFetch pid]\<rparr>)"
    using verifyRazorpayPayment_valid [OF request found owner valid gateway] accepted
    by (simp add: p' called_def)
  moreover have "findOne_orderId oid (save p' (store s)) = Some p'"
    by (rule findOne_orderId_save [OF found keeps])
  ultimately show ?thesis by simp
qed

theorem verification_updates_record_witness:
  "verifyRazorpayPayment example_env example_user example_verify_request (holding example_pending)
     = (respond 200 True ''Payment verified successfully'' None,
        \<lparr>store = [example_pending\<lparr>transactionId := Some ''pay_1'', paymentStatus := Completed,
                    metadata := Some [''razorpayPayment'' \<mapsto>
                      MetaRazorpay \<lparr>rd_method = Some ''upi'', rd_bank = None, rd_wallet = None,
                                     rd_vpa = Some ''a@upi'', rd_email = Some ''a@example.com'',
                                     rd_contact = Some ''+919876543210''\<rparr>]\<rparr>],
         next_id = 1, gateway_calls = [PaymentsFetch ''pay_1'']\<rparr>)
   \<and> verifyRazorpayPayment authorized_env example_user example_verify_request (holding example_pending)
     = (respond 200 True ''Payment verified successfully'' None,
        \<lparr>store = [example_pending\<lparr>transactionId := Some ''pay_1'', paymentStatus := Processing\<rparr>],
         next_id = 1, gateway_calls = [PaymentsFetch ''pay_1'']\<rparr>)"
proof
  show "verifyRazorpayPayment example_env example_user example_verify_request (holding example_pending)
     = (respond 200 True ''Payment verified successfully'' None,
        \<lparr>store = [example_pending\<lparr>transactionId := Some ''pay_1'', paymentStatus := Completed,
                    metadata := Some [''razorpayPayment'' \<mapsto>
                      MetaRazorpay \<lparr>rd_method = Some ''upi'', rd_bank = None, rd_wallet = None,
                                     rd_vpa = Some ''a@upi'', rd_email = Some ''a@example.com'',
                                     rd_contact = Some ''+919876543210''\<rparr>]\<rparr>],
         next_id = 1, gateway_calls = [PaymentsFetch ''pay_1'']\<rparr>)"
    using verification_updates_record [where req = example_verify_request and oid = "''order_1''"
        and pid = "''pay_1''" and sig = "''key_secret/order_1|pay_1''"
        and s = "holding example_pending" and p = example_pending and usr = example_user
        and env = example_env and rp = "example_entity ''pay_1''", OF _ _ _ _ _ _ _ _ _ _ _ refl]
    by (simp add: example_verify_request_def example_defs findOne_orderId_def
        verifyPaymentSignature_def getRazorpayInstance_def truthy_def schema_defs save_def)
  show "verifyRazorpayPayment authorized_env example_user example_verify_request (holding example_pending)
     = (respond 200 True ''Payment verified successfully'' None,
        \<lparr>store = [example_pending\<lparr>transactionId := Some ''pay_1'', paymentStatus := Processing\<rparr>],
         next_id = 1, gateway_calls = [PaymentsFetch ''pay_1'']\<rparr>)"
    using verification_updates_record [where req = example_verify_request and oid = "''order_1''"
        and pid = "''pay_1''" and sig = "''key_secret/order_1|pay_1''"
        and s = "holding example_pending" and p = example_pending and usr = example_user
        and env = authorized_env
        and rp = "(example_entity ''pay_1'')\<lparr>ent_status := ''authorized''\<rparr>",
        OF _ _ _ _ _ _ _ _ _ _ _ refl]
    by (simp add: example_verify_request_def example_defs findOne_orderId_def authorized_env_def
        verifyPaymentSignature_def getRazorpayInstance_def truthy_def schema_defs save_def)
qed

subsection \<open>Failed signature checks\<close>

text \<open>
  Claim C3 as stated fails for client verification: on a digest mismatch the handler
  writes status \<^verbatim>\<open>failed\<close> and a note into the document before answering 400.
\<close>

theorem invalid_signature_mutates_record:
  "verifyPaymentSignature example_env ''order_1'' ''pay_1'' ''forged'' = Inr False
   \<and> verifyRazorpayPayment example_env example_user forged_verify_request (holding example_pending)
       = (respond 400 False ''Payment verification failed: Invalid signature'' None,
          holding (example_pending\<lparr>paymentStatus := Failed,
                     notes' := Some ''Payment verification failed: Invalid signature''\<rparr>))
   \<and> holding (example_pending\<lparr>paymentStatus := Failed,
                 notes' := Some ''Payment verification failed: Invalid signature''\<rparr>)
       \<noteq> holding example_pending"
  by (simp add: verifyRazorpayPayment_def verifyPaymentSignature_def findOne_orderId_def
      db_save_def save_def invalid_signature_assignments_def forged_verify_request_def
      example_defs Let_def schema_defs)

text \<open>
  Claim C3, amended. A webhook is answered 500 \<^verbatim>\<open>Webhook secret not configured\<close>
  when the webhook secret is missing or empty, and 400 \<^verbatim>\<open>Invalid webhook signature\<close>
  when the header is missing or differs from the digest of the body; in both cases
  the state is unchanged. A client verification without a signature is answered 400
  \<^verbatim>\<open>Please provide orderId, paymentId, and signature\<close>, the state unchanged. A
  client verification with its three fields is answered 404 when no document has the
  order id and 403 when the caller does not own the document found, before any
  signature is checked and with the state unchanged. For the owner of the document
  found: without a key secret the answer is 500 \<^verbatim>\<open>Error verifying payment\<close> and
  the state is unchanged; when the digest does not match, the handler writes status
  \<^verbatim>\<open>failed\<close> and the note into that document, changes nothing else, and answers
  400 \<^verbatim>\<open>Payment verification failed: Invalid signature\<close>, or, if the database
  refuses that write, changes nothing and answers 500.
\<close>

theorem signature_failure_effects:
  "(RAZORPAY_WEBHOOK_SECRET env = None \<or> RAZORPAY_WEBHOOK_SECRET env = Some []
     \<longrightarrow> razorpayWebhook env req s
           = (respond 500 False ''Webhook secret not configured'' None, s))
   \<and> (\<forall>k. RAZORPAY_WEBHOOK_SECRET env = Some k \<and> k \<noteq> []
          \<and> wh_signature req \<noteq>
               Some (hmac_sha256_hex env k
                      (case wh_body req of Buffer raw \<Rightarrow> raw | Parsed ev \<Rightarrow> json_stringify env ev))
     \<longrightarrow> razorpayWebhook env req s = (respond 400 False ''Invalid webhook signature'' None, s))
   \<and> (v_signature vreq = None \<or> v_signature vreq = Some []
     \<longrightarrow> verifyRazorpayPayment env usr vreq s
           = (respond 400 False ''Please provide orderId, paymentId, and signature'' None, s))
   \<and> (v_orderId vreq = Some oid \<and> v_paymentId vreq = Some pid \<and> v_signature vreq = Some sig
        \<and> oid \<noteq> [] \<and> pid \<noteq> [] \<and> sig \<noteq> []
     \<longrightarrow> (findOne_orderId oid (store s) = None
           \<longrightarrow> verifyRazorpayPayment env usr vreq s
                 = (respond 404 False ''Payment record not found'' None, s))
       \<and> (\<forall>p. findOne_orderId oid (store s) = Some p \<and> user p \<noteq> u_id usr
           \<longrightarrow> verifyRazorpayPayment env usr vreq s
                 = (respond 403 False ''Not authorized to verify this payment'' None, s))
       \<and> (\<forall>p. findOne_orderId oid (store s) = Some p \<and> user p = u_id usr
           \<longrightarrow> (RAZORPAY_KEY_SECRET env = None
                 \<longrightarrow> verifyRazorpayPayment env usr vreq s
                       = (respond 500 False ''Error verifying payment''
                            (Some (''Error verifying payment signature: ''
                                     @ createHmac_key_error env)), s))
             \<and> (\<forall>k. RAZORPAY_KEY_SECRET env = Some k
                      \<and> hmac_sha256_hex env k (oid @ ''|'' @ pid) \<noteq> sig
                 \<longrightarrow> verifyRazorpayPayment env usr vreq s =
                      (case db_validate env (store s)
                              (p\<lparr>paymentStatus := Failed,
                                 notes' := Some ''Payment verification failed: Invalid signature''\<rparr>) of
                         None \<Rightarrow>
                           (respond 400 False ''Payment verification failed: Invalid signature'' None,
                            s\<lparr>store := save (p\<lparr>paymentStatus := Failed,
                                                 notes' := Some ''Payment verification failed: Invalid signature''\<rparr>)
                                             (store s)\<rparr>)
                       | Some m \<Rightarrow> (respond 500 False ''Error verifying payment'' (Some m), s)))))"
proof (intro conjI impI allI)
  assume "RAZORPAY_WEBHOOK_SECRET env = None \<or> RAZORPAY_WEBHOOK_SECRET env = Some []"
  then show "razorpayWebhook env req s
           = (respond 500 False ''Webhook secret not configured'' None, s)"
    by (auto simp: razorpayWebhook_def)
next
  fix k
  assume "RAZORPAY_WEBHOOK_SECRET env = Some k \<and> k \<noteq> []
          \<and> wh_signature req \<noteq>
               Some (hmac_sha256_hex env k
                      (case wh_body req of Buffer raw \<Rightarrow> raw | Parsed ev \<Rightarrow> json_stringify env ev))"
  then show "razorpayWebhook env req s = (respond 400 False ''Invalid webhook signature'' None, s)"
    by (simp add: razorpayWebhook_def Let_def)
next
  assume "v_signature vreq = None \<or> v_signature vreq = Some []"
  then show "verifyRazorpayPayment env usr vreq s
      = (respond 400 False ''Please provide orderId, paymentId, and signature'' None, s)"
    by (auto simp: verifyRazorpayPayment_def Let_def split: option.splits)
next
  assume pre: "v_orderId vreq = Some oid \<and> v_paymentId vreq = Some pid \<and> v_signature vreq = Some sig
        \<and> oid \<noteq> [] \<and> pid \<noteq> [] \<and> sig \<noteq> []"
  {
    assume "findOne_orderId oid (store s) = None"
    with pre show "verifyRazorpayPayment env usr vreq s
                 = (respond 404 False ''Payment record not found'' None, s)"
      by (simp add: verifyRazorpayPayment_def Let_def)
  }
  {
    fix p
    assume "findOne_orderId oid (store s) = Some p \<and> user p \<noteq> u_id usr"
    with pre show "verifyRazorpayPayment env usr vreq s
                 = (respond 403 False ''Not authorized to verify this payment'' None, s)"
      by (simp add: verifyRazorpayPayment_def Let_def)
  }
  {
    fix p
    assume own: "findOne_orderId oid (store s) = Some p \<and> user p = u_id usr"
    {
      assume "RAZORPAY_KEY_SECRET env = None"
      with pre own show "verifyRazorpayPayment env usr vreq s
                       = (respond 500 False ''Error verifying payment''
                            (Some (''Error verifying payment signature: ''
                                     @ createHmac_key_error env)), s)"
        by (simp add: verifyRazorpayPayment_def verifyPaymentSignature_def Let_def)
    }
    {
      fix k
      assume "RAZORPAY_KEY_SECRET env = Some k \<and> hmac_sha256_hex env k (oid @ ''|'' @ pid) \<noteq> sig"
      with pre own show "verifyRazorpayPayment env usr vreq s =
                      (case db_validate env (store s)
                              (p\<lparr>paymentStatus := Failed,
                                 notes' := Some ''Payment verification failed: Invalid signature''\<rparr>) of
                         None \<Rightarrow>
                           (respond 400 False ''Payment verification failed: Invalid signature'' None,
                            s\<lparr>store := save (p\<lparr>paymentStatus := Failed,
                                                 notes' := Some ''Payment verification failed: Invalid signature''\<rparr>)
                                             (store s)\<rparr>)
                       | Some m \<Rightarrow> (respond 500 False ''Error verifying payment'' (Some m), s))"
        by (simp add: verifyRazorpayPayment_def verifyPaymentSignature_def Let_def db_save_def
            invalid_signature_assignments_def split: option.splits)
    }
  }
qed

theorem signature_failure_effects_witness:
  "razorpayWebhook example_env unsigned_webhook (holding example_pending)
     = (respond 400 False ''Invalid webhook signature'' None, holding example_pending)
   \<and> razorpayWebhook (example_env\<lparr>RAZORPAY_WEBHOOK_SECRET := None\<rparr>) example_captured_webhook
       (holding example_pending)
     = (respond 500 False ''Webhook secret not configured'' None, holding example_pending)
   \<and> verifyRazorpayPayment example_env other_user forged_verify_request (holding example_pending)
     = (respond 403 False ''Not authorized to verify this payment'' None, holding example_pending)
   \<and> verifyRazorpayPayment example_env example_user forged_verify_request (holding example_pending)
       = (respond 400 False ''Payment verification failed: Invalid signature'' None,
          holding (example_pending\<lparr>paymentStatus := Failed,
                     notes' := Some ''Payment verification failed: Invalid signature''\<rparr>))
   \<and> verifyRazorpayPayment example_env example_user (forged_verify_request\<lparr>v_signature := None\<rparr>)
       (holding example_pending)
     = (respond 400 False ''Please provide orderId, paymentId, and signature'' None,
        holding example_pending)
   \<and> verifyRazorpayPayment example_env example_user
       (forged_verify_request\<lparr>v_orderId := Some ''order_9''\<rparr>) (holding example_pending)
     = (respond 404 False ''Payment record not found'' None, holding example_pending)
   \<and> verifyRazorpayPayment (example_env\<lparr>RAZORPAY_KEY_SECRET := None\<rparr>) example_user
       forged_verify_request (holding example_pending)
     = (respond 500 False ''Error verifying payment''
          (Some ''Error verifying payment signature: The key argument is undefined''),
        holding example_pending)"
proof (intro conjI)
  show "verifyRazorpayPayment example_env example_user (forged_verify_request\<lparr>v_signature := None\<rparr>)
       (holding example_pending)
     = (respond 400 False ''Please provide orderId, paymentId, and signature'' None,
        holding example_pending)"
    using signature_failure_effects [where env = example_env
        and vreq = "forged_verify_request\<lparr>v_signature := None\<rparr>"
        and s = "holding example_pending" and usr = example_user]
    by simp
  show "verifyRazorpayPayment example_env example_user
       (forged_verify_request\<lparr>v_orderId := Some ''order_9''\<rparr>) (holding example_pending)
     = (respond 404 False ''Payment record not found'' None, holding example_pending)"
    using signature_failure_effects [where env = example_env
        and vreq = "forged_verify_request\<lparr>v_orderId := Some ''order_9''\<rparr>"
        and s = "holding example_pending" and usr = example_user
        and oid = "''order_9''" and pid = "''pay_1''" and sig = "''forged''"]
    by (simp add: forged_verify_request_def example_defs findOne_orderId_def)
  show "verifyRazorpayPayment (example_env\<lparr>RAZORPAY_KEY_SECRET := None\<rparr>) example_user
       forged_verify_request (holding example_pending)
     = (respond 500 False ''Error verifying payment''
          (Some ''Error verifying payment signature: The key argument is undefined''),
        holding example_pending)"
    using signature_failure_effects [where env = "example_env\<lparr>RAZORPAY_KEY_SECRET := None\<rparr>"
        and vreq = forged_verify_request
        and s = "holding example_pending" and usr = example_user
        and oid = "''order_1''" and pid = "''pay_1''" and sig = "''forged''"]
    by (simp add: forged_verify_request_def example_defs findOne_orderId_def)
  show "razorpayWebhook example_env unsigned_webhook (holding example_pending)
     = (respond 400 False ''Invalid webhook signature'' None, holding example_pending)"
    using signature_failure_effects [where env = example_env and req = unsigned_webhook
        and s = "holding example_pending"]
    by (simp add: unsigned_webhook_def example_env_def)
  show "razorpayWebhook (example_env\<lparr>RAZORPAY_WEBHOOK_SECRET := None\<rparr>) example_captured_webhook
       (holding example_pending)
     = (respond 500 False ''Webhook secret not configured'' None, holding example_pending)"
    using signature_failure_effects [where env = "example_env\<lparr>RAZORPAY_WEBHOOK_SECRET := None\<rparr>"
        and req = example_captured_webhook and s = "holding example_pending"]
    by simp
  show "verifyRazorpayPayment example_env other_user forged_verify_request (holding example_pending)
     = (respond 403 False ''Not authorized to verify this payment'' None, holding example_pending)"
    using signature_failure_effects [where env = example_env and vreq = forged_verify_request
        and s = "holding example_pending" and usr = other_user
        and oid = "''order_1''" and pid = "''pay_1''" and sig = "''forged''"]
    by (simp add: forged_verify_request_def example_defs other_user_def findOne_orderId_def)
  show "verifyRazorpayPayment example_env example_user forged_verify_request (holding example_pending)
       = (respond 400 False ''Payment verification failed: Invalid signature'' None,
          holding (example_pending\<lparr>paymentStatus := Failed,
                     notes' := Some ''Payment verification failed: Invalid signature''\<rparr>))"
    using signature_failure_effects [where env = example_env and vreq = forged_verify_request
        and s = "holding example_pending" and usr = example_user
        and oid = "''order_1''" and pid = "''pay_1''" and sig = "''forged''"]
    by (simp add: forged_verify_request_def example_defs findOne_orderId_def save_def schema_defs)
qed

subsection \<open>The refund operation\<close>

lemma findById_payment_id: "findById i ps = Some p \<Longrightarrow> payment_id p = i"
  by (induction ps) (auto simp: findById_def split: if_splits)

lemma findById_save:
  "findById i ps = Some p \<Longrightarrow> payment_id p' = payment_id p \<Longrightarrow> findById i (save p' ps) = Some p'"
  by (induction ps) (auto simp: findById_def save_def split: if_splits)

lemma processRefund_success:
  "status_code (fst (processRefund env req s)) = 200 \<longleftrightarrow>
     (\<exists>ra p. rf_refundAmount req = Some ra \<and> 0 < ra
        \<and> findById (rf_id req) (store s) = Some p
        \<and> paymentStatus p = Completed \<and> refundAmount p \<le> 0 \<and> ra \<le> amount p
        \<and> db_validate env (store s) (refund_assignments env req ra p) = None)"
  by (auto simp: processRefund_def respond_def db_save_def split: option.splits)

lemma processRefund_success_state:
  "rf_refundAmount req = Some ra \<Longrightarrow> 0 < ra \<Longrightarrow> findById (rf_id req) (store s) = Some p \<Longrightarrow>
   paymentStatus p = Completed \<Longrightarrow> refundAmount p \<le> 0 \<Longrightarrow> ra \<le> amount p \<Longrightarrow>
   db_validate env (store s) (refund_assignments env req ra p) = None \<Longrightarrow>
     processRefund env req s = (respond 200 True ''Refund processed successfully'' None,
                                s\<lparr>store := save (refund_assignments env req ra p) (store s)\<rparr>)"
  by (simp add: processRefund_def db_save_def)

lemma processRefund_rejected:
  "status_code (fst (processRefund env req s)) \<noteq> 200 \<Longrightarrow> snd (processRefund env req s) = s"
  by (auto simp: processRefund_def respond_def db_save_def split: option.splits if_splits)

lemma refund_assignments_fields:
  "payment_id (refund_assignments env req ra p) = payment_id p"
  "paymentStatus (refund_assignments env req ra p) = Refunded"
  "refundAmount (refund_assignments env req ra p) = ra"
  by (simp_all add: refund_assignments_def Let_def)

lemma refund_assignments_explicit:
  "refund_assignments env req ra p
     = p\<lparr>refundAmount := ra,
          refundReason := Some (case rf_refundReason req of None \<Rightarrow> ''Requested refund''
                                | Some t \<Rightarrow> if t = [] then ''Requested refund'' else t),
          refundedAt := Some (now env),
          paymentStatus := Refunded,
          notes' := (case rf_notes req of None \<Rightarrow> notes' p
                     | Some t \<Rightarrow> if t = [] then notes' p else Some t)\<rparr>"
  by (simp add: refund_assignments_def Let_def js_or_def truthy_def split: option.splits)

lemma processRefund_not_completed:
  "findById (rf_id req) (store s) = Some p \<Longrightarrow> paymentStatus p \<noteq> Completed \<Longrightarrow>
     status_code (fst (processRefund env req s)) = 400 \<and> snd (processRefund env req s) = s"
  by (simp add: processRefund_def respond_def split: option.splits)

lemma example_refund_run:
  "processRefund example_env example_refund_request (holding example_completed)
     = (respond 200 True ''Refund processed successfully'' None, holding example_refunded)"
  by (simp add: processRefund_def findById_def db_save_def save_def refund_assignments_def
      js_or_def truthy_def example_refund_request_def example_defs Let_def schema_defs)

text \<open>
  Claim C6 as stated fails: the four preconditions hold for the requested amount 0
  on a completed, unrefunded document, and the request is rejected; and the amount
  is checked before the document is looked up, so a request for the amount 0 and an
  id that no document has is answered 400 for the amount, not 404.
\<close>

theorem zero_refund_rejected:
  "findById (rf_id zero_refund_request) (store (holding example_completed)) = Some example_completed
   \<and> paymentStatus example_completed = Completed
   \<and> refundAmount example_completed = 0
   \<and> rf_refundAmount zero_refund_request = Some 0
   \<and> 0 \<le> amount example_completed
   \<and> processRefund example_env zero_refund_request (holding example_completed)
       = (respond 400 False ''Please provide a valid refund amount'' None, holding example_completed)
   \<and> findById (rf_id stray_zero_refund_request) (store (holding example_completed)) = None
   \<and> processRefund example_env stray_zero_refund_request (holding example_completed)
       = (respond 400 False ''Please provide a valid refund amount'' None, holding example_completed)"
  by (simp add: processRefund_def findById_def zero_refund_request_def
      stray_zero_refund_request_def example_defs)

text \<open>
  Claim C6, amended. The refund succeeds exactly when the requested amount is present
  and positive, the document exists, its status is completed, its refund amount is
  not positive, the requested amount is at most the original amount, and the
  database accepts the write. The checks run in this order and the first one that
  fails decides the answer: a missing, zero or negative amount is answered 400
  whether or not the document exists; then a missing document 404; then a status
  other than completed, an earlier refund, and an amount above the original amount
  400 each; then the write, answered 200 when the database accepts it and 500 when
  it refuses. A rejected request leaves the state unchanged; after a successful
  refund every further refund request for the same document is rejected with 400
  and changes nothing.
\<close>

theorem refund_preconditions:
  "(status_code (fst (processRefund env req s)) = 200 \<longleftrightarrow>
      (\<exists>ra p. rf_refundAmount req = Some ra \<and> 0 < ra
         \<and> findById (rf_id req) (store s) = Some p
         \<and> paymentStatus p = Completed \<and> refundAmount p \<le> 0 \<and> ra \<le> amount p
         \<and> db_validate env (store s) (refund_assignments env req ra p) = None))
   \<and> (status_code (fst (processRefund env req s)) \<noteq> 200 \<longrightarrow> snd (processRefund env req s) = s)
   \<and> (rf_refundAmount req = None \<or> (\<exists>ra. rf_refundAmount req = Some ra \<and> ra \<le> 0)
        \<longrightarrow> processRefund env req s
              = (respond 400 False ''Please provide a valid refund amount'' None, s))
   \<and> (\<forall>ra. rf_refundAmount req = Some ra \<and> 0 < ra \<longrightarrow>
        (case findById (rf_id req) (store s) of
           None \<Rightarrow> fst (processRefund env req s) = respond 404 False ''Payment not found'' None
         | Some p \<Rightarrow>
             if paymentStatus p \<noteq> Completed
             then fst (processRefund env req s)
                    = respond 400 False ''Can only refund completed payments'' None
             else if 0 < refundAmount p
             then fst (processRefund env req s)
                    = respond 400 False ''Payment has already been refunded'' None
             else if amount p < ra
             then fst (processRefund env req s)
                    = respond 400 False ''Refund amount cannot exceed payment amount'' None
             else processRefund env req s =
                    (case db_validate env (store s)
                            (p\<lparr>refundAmount := ra,
                               refundReason := Some (case rf_refundReason req of
                                                       None \<Rightarrow> ''Requested refund''
                                                     | Some t \<Rightarrow> if t = [] then ''Requested refund'' else t),
                               refundedAt := Some (now env),
                               paymentStatus := Refunded,
                               notes' := (case rf_notes req of None \<Rightarrow> notes' p
                                          | Some t \<Rightarrow> if t = [] then notes' p else Some t)\<rparr>) of
                       None \<Rightarrow> (respond 200 True ''Refund processed successfully'' None,
                                 s\<lparr>store := save
                                     (p\<lparr>refundAmount := ra,
                                        refundReason := Some (case rf_refundReason req of
                                                                None \<Rightarrow> ''Requested refund''
                                                              | Some t \<Rightarrow> if t = [] then ''Requested refund'' else t),
                                        refundedAt := Some (now env),
                                        paymentStatus := Refunded,
                                        notes' := (case rf_notes req of None \<Rightarrow> notes' p
                                                   | Some t \<Rightarrow> if t = [] then notes' p else Some t)\<rparr>)
                                     (store s)\<rparr>)
                     | Some m \<Rightarrow> (respond 500 False ''Error processing refund'' (Some m), s))))
   \<and> (status_code (fst (processRefund env req s)) = 200 \<and> rf_id req2 = rf_id req \<longrightarrow>
        status_code (fst (processRefund env2 req2 (snd (processRefund env req s)))) = 400
        \<and> snd (processRefund env2 req2 (snd (processRefund env req s))) = snd (processRefund env req s))"
proof (intro conjI impI allI)
  show "status_code (fst (processRefund env req s)) = 200 \<longleftrightarrow>
      (\<exists>ra p. rf_refundAmount req = Some ra \<and> 0 < ra
         \<and> findById (rf_id req) (store s) = Some p
         \<and> paymentStatus p = Completed \<and> refundAmount p \<le> 0 \<and> ra \<le> amount p
         \<and> db_validate env (store s) (refund_assignments env req ra p) = None)"
    by (rule processRefund_success)
next
  assume "status_code (fst (processRefund env req s)) \<noteq> 200"
  then show "snd (processRefund env req s) = s" by (rule processRefund_rejected)
next
  assume "rf_refundAmount req = None \<or> (\<exists>ra. rf_refundAmount req = Some ra \<and> ra \<le> 0)"
  then show "processRefund env req s
              = (respond 400 False ''Please provide a valid refund amount'' None, s)"
    by (auto simp: processRefund_def)
next
  fix ra
  assume ra: "rf_refundAmount req = Some ra \<and> 0 < ra"
  show "case findById (rf_id req) (store s) of
           None \<Rightarrow> fst (processRefund env req s) = respond 404 False ''Payment not found'' None
         | Some p \<Rightarrow>
             if paymentStatus p \<noteq> Completed
             then fst (processRefund env req s)
                    = respond 400 False ''Can only refund completed payments'' None
             else if 0 < refundAmount p
             then fst (processRefund env req s)
                    = respond 400 False ''Payment has already been refunded'' None
             else if amount p < ra
             then fst (processRefund env req s)
                    = respond 400 False ''Refund amount cannot exceed payment amount'' None
             else processRefund env req s =
                    (case db_validate env (store s)
                            (p\<lparr>refundAmount := ra,
                               refundReason := Some (case rf_refundReason req of
                                                       None \<Rightarrow> ''Requested refund''
                                                     | Some t \<Rightarrow> if t = [] then ''Requested refund'' else t),
                               refundedAt := Some (now env),
                               paymentStatus := Refunded,
                               notes' := (case rf_notes req of None \<Rightarrow> notes' p
                                          | Some t \<Rightarrow> if t = [] then notes' p else Some t)\<rparr>) of
                       None \<Rightarrow> (respond 200 True ''Refund processed successfully'' None,
                                 s\<lparr>store := save
                                     (p\<lparr>refundAmount := ra,
                                        refundReason := Some (case rf_refundReason req of
                                                                None \<Rightarrow> ''Requested refund''
                                                              | Some t \<Rightarrow> if t = [] then ''Requested refund'' else t),
                                        refundedAt := Some (now env),
                                        paymentStatus := Refunded,
                                        notes' := (case rf_notes req of None \<Rightarrow> notes' p
                                                   | Some t \<Rightarrow> if t = [] then notes' p else Some t)\<rparr>)
                                     (store s)\<rparr>)
                     | Some m \<Rightarrow> (respond 500 False ''Error processing refund'' (Some m), s))"
  proof (cases "findById (rf_id req) (store s)")
    case None
    with ra show ?thesis by (simp add: processRefund_def)
  next
    case (Some p)
    show ?thesis
    proof (cases "db_validate env (store s) (refund_assignments env req ra p)")
      case None
      with ra Some show ?thesis
        by (simp add: processRefund_def db_save_def refund_assignments_explicit)
    next
      case (Some m)
      with ra \<open>findById (rf_id req) (store s) = Some p\<close> show ?thesis
        by (simp add: processRefund_def db_save_def refund_assignments_explicit)
    qed
  qed
next
  assume a: "status_code (fst (processRefund env req s)) = 200 \<and> rf_id req2 = rf_id req"
  then obtain ra p where ok: "rf_refundAmount req = Some ra" "0 < ra"
      "findById (rf_id req) (store s) = Some p" "paymentStatus p = Completed"
      "refundAmount p \<le> 0" "ra \<le> amount p"
      "db_validate env (store s) (refund_assignments env req ra p) = None"
    unfolding processRefund_success by blast
  let ?p' = "refund_assignments env req ra p"
  let ?s' = "s\<lparr>store := save ?p' (store s)\<rparr>"
  have after: "snd (processRefund env req s) = ?s'"
    using processRefund_success_state [OF ok] by simp
  have "findById (rf_id req2) (store ?s') = Some ?p'"
    using a findById_save [OF ok(3), of ?p'] by (simp add: refund_assignments_fields)
  from processRefund_not_completed [OF this, of env2]
  show "status_code (fst (processRefund env2 req2 (snd (processRefund env req s)))) = 400"
    and "snd (processRefund env2 req2 (snd (processRefund env req s))) = snd (processRefund env req s)"
    unfolding after by (simp_all add: refund_assignments_fields)
qed

theorem refund_preconditions_witness:
  "status_code (fst (processRefund example_env example_refund_request (holding example_completed))) = 200
   \<and> status_code (fst (processRefund example_env example_refund_request (holding example_refunded))) = 400
   \<and> snd (processRefund example_env example_refund_request (holding example_refunded))
       = holding example_refunded
   \<and> processRefund example_env stray_zero_refund_request (holding example_completed)
       = (respond 400 False ''Please provide a valid refund amount'' None, holding example_completed)
   \<and> processRefund example_env (example_refund_request\<lparr>rf_id := 7\<rparr>) (holding example_completed)
       = (respond 404 False ''Payment not found'' None, holding example_completed)
   \<and> processRefund example_env (example_refund_request\<lparr>rf_refundAmount := Some 1000\<rparr>)
         (holding example_completed)
       = (respond 400 False ''Refund amount cannot exceed payment amount'' None,
          holding example_completed)"
proof -
  have missing: "processRefund example_env (example_refund_request\<lparr>rf_id := 7\<rparr>)
         (holding example_completed)
       = (respond 404 False ''Payment not found'' None, holding example_completed)"
    using refund_preconditions [where env = example_env
        and req = "example_refund_request\<lparr>rf_id := 7\<rparr>" and s = "holding example_completed"]
    by (auto simp: example_refund_request_def example_defs findById_def respond_def
        intro: prod_eqI)
  have above: "processRefund example_env (example_refund_request\<lparr>rf_refundAmount := Some 1000\<rparr>)
         (holding example_completed)
       = (respond 400 False ''Refund amount cannot exceed payment amount'' None,
          holding example_completed)"
    using refund_preconditions [where env = example_env
        and req = "example_refund_request\<lparr>rf_refundAmount := Some 1000\<rparr>"
        and s = "holding example_completed"]
    by (auto simp: example_refund_request_def example_defs findById_def respond_def
        intro: prod_eqI)
  have stray: "processRefund example_env stray_zero_refund_request (holding example_completed)
       = (respond 400 False ''Please provide a valid refund amount'' None, holding example_completed)"
    using refund_preconditions [where env = example_env and req = stray_zero_refund_request
        and s = "holding example_completed"]
    by (simp add: stray_zero_refund_request_def)
  from refund_preconditions [where env = example_env and req = example_refund_request
      and s = "holding example_completed" and ?req2.0 = example_refund_request
      and ?env2.0 = example_env] stray missing above
  show ?thesis by (simp add: example_refund_run respond_def)
qed

text \<open>
  Claim C1 at a concrete request: with a gateway that refuses every refund, the
  refund of the completed document of the scenario is answered with success, the
  document is marked refunded, and no call to the gateway is made. For every
  environment, request and state, \<^const>\<open>processRefund\<close> leaves the list of gateway
  calls as it was.
\<close>

theorem refund_applied_without_gateway:
  "processRefund example_env example_refund_request (holding example_completed)
     = (respond 200 True ''Refund processed successfully'' None, holding example_refunded)
   \<and> gateway_calls (holding example_refunded) = []
   \<and> payments_refund example_env ''pay_1'' (refund_options_of (Some 999) Map.empty)
       = Inl ''gateway unavailable''
   \<and> (\<forall>env req s. gateway_calls (snd (processRefund env req s)) = gateway_calls s)"
proof (intro conjI allI)
  fix env req s
  show "gateway_calls (snd (processRefund env req s)) = gateway_calls s"
    by (auto simp: processRefund_def db_save_def split: option.splits)
next
  show "processRefund example_env example_refund_request (holding example_completed)
     = (respond 200 True ''Refund processed successfully'' None, holding example_refunded)"
    by (rule example_refund_run)
  show "gateway_calls (holding example_refunded) = []"
    by (simp add: holding_def)
  show "payments_refund example_env ''pay_1'' (refund_options_of (Some 999) Map.empty)
       = Inl ''gateway unavailable''"
    by (simp add: example_env_def)
qed

subsection \<open>Status changes\<close>

lemma list_all2_save:
  assumes "\<And>q. q \<in> set ps \<Longrightarrow> R q q"
    and "\<And>q. q \<in> set ps \<Longrightarrow> payment_id q = payment_id p' \<Longrightarrow> R q p'"
  shows "list_all2 R ps (save p' ps)"
  using assms by (simp add: save_def list_all2_map2 list_all2_same)

lemma db_save_store:
  "db_save env p' s = Inr s' \<Longrightarrow> store s' = save p' (store s)"
  by (auto simp: db_save_def split: option.splits)

lemma gateway_step_refl: "gateway_step q q"
  by (simp add: gateway_step_def)

lemma gateway_step_save:
  "paymentStatus p' \<in> {Completed, Failed, Processing} \<Longrightarrow> list_all2 gateway_step ps (save p' ps)"
  by (rule list_all2_save) (auto simp: gateway_step_def)

lemma gateway_step_same: "list_all2 gateway_step ps ps"
  by (simp add: list_all2_same gateway_step_refl)

lemma handlePaymentCaptured_step:
  "list_all2 gateway_step (store s) (store (handlePaymentCaptured env e s))"
  by (auto simp: handlePaymentCaptured_def gateway_step_same captured_assignments_def
      dest!: db_save_store intro!: gateway_step_save split: option.splits sum.splits)

lemma handlePaymentFailed_step:
  "list_all2 gateway_step (store s) (store (handlePaymentFailed env e s))"
  by (auto simp: handlePaymentFailed_def gateway_step_same failed_assignments_def
      dest!: db_save_store intro!: gateway_step_save split: option.splits sum.splits)

lemma handleOrderPaid_step:
  "list_all2 gateway_step (store s) (store (handleOrderPaid env e s))"
  by (auto simp: handleOrderPaid_def gateway_step_same
      dest!: db_save_store intro!: gateway_step_save split: option.splits sum.splits)

lemma razorpayWebhook_step:
  "list_all2 gateway_step (store s) (store (snd (razorpayWebhook env req s)))"
  by (auto simp: razorpayWebhook_def dispatch_def Let_def gateway_step_same
      handlePaymentCaptured_step handlePaymentFailed_step handleOrderPaid_step
      split: option.splits sum.splits webhook_event.splits)

lemma getPaymentDetails_store: "store (snd (getPaymentDetails env pid s)) = store s"
  by (simp add: getPaymentDetails_def called_def split: sum.splits)

lemma verifyRazorpayPayment_step:
  "list_all2 gateway_step (store s) (store (snd (verifyRazorpayPayment env usr req s)))"
proof -
  have fetch: "\<And>pid r s1. getPaymentDetails env pid s = (r, s1) \<Longrightarrow> store s1 = store s"
    using getPaymentDetails_store by (metis snd_conv)
  show ?thesis
    by (auto simp: verifyRazorpayPayment_def Let_def gateway_step_same
        verified_assignments_def invalid_signature_assignments_def
        dest!: db_save_store fetch intro!: gateway_step_save
        split: option.splits sum.splits prod.splits)
qed

lemma stays_completed_save:
  "paymentStatus p' = Completed \<Longrightarrow> list_all2 stays_completed ps (save p' ps)"
  by (rule list_all2_save) (auto simp: stays_completed_def)

lemma stays_completed_same: "list_all2 stays_completed ps ps"
  by (simp add: list_all2_same stays_completed_def)

lemma captured_stays_completed:
  "list_all2 stays_completed (store s) (store (handlePaymentCaptured env e s))"
  by (auto simp: handlePaymentCaptured_def stays_completed_same captured_assignments_def
      dest!: db_save_store intro!: stays_completed_save split: option.splits sum.splits)

lemma order_paid_stays_completed:
  "list_all2 stays_completed (store s) (store (handleOrderPaid env e s))"
  by (auto simp: handleOrderPaid_def stays_completed_same
      dest!: db_save_store intro!: stays_completed_save split: option.splits sum.splits)

lemma findById_in_set: "findById i ps = Some p \<Longrightarrow> p \<in> set ps"
  by (auto simp: findById_def find_Some_iff)

lemma findById_unique:
  assumes "distinct (map payment_id ps)" "findById i ps = Some p" "q \<in> set ps" "payment_id q = i"
  shows "q = p"
proof -
  have "inj_on payment_id (set ps)" using assms(1) by (simp add: distinct_map)
  moreover have "p \<in> set ps" "payment_id p = i"
    using assms(2) by (auto simp: findById_def find_Some_iff)
  ultimately show ?thesis using assms(3,4) by (auto dest: inj_onD)
qed

lemma processRefund_step:
  assumes "distinct (map payment_id (store s))"
  shows "list_all2 refund_step (store s) (store (snd (processRefund env req s)))"
proof (cases "status_code (fst (processRefund env req s)) = 200")
  case False
  then have "snd (processRefund env req s) = s" by (rule processRefund_rejected)
  then show ?thesis by (simp add: list_all2_same refund_step_def)
next
  case True
  then obtain ra p where ok: "rf_refundAmount req = Some ra" "0 < ra"
      "findById (rf_id req) (store s) = Some p" "paymentStatus p = Completed"
      "refundAmount p \<le> 0" "ra \<le> amount p"
      "db_validate env (store s) (refund_assignments env req ra p) = None"
    unfolding processRefund_success by blast
  have "list_all2 refund_step (store s) (save (refund_assignments env req ra p) (store s))"
  proof (rule list_all2_save)
    fix q assume "q \<in> set (store s)"
    then show "refund_step q q" by (simp add: refund_step_def)
  next
    fix q assume "q \<in> set (store s)"
      and "payment_id q = payment_id (refund_assignments env req ra p)"
    then have "q = p"
      using findById_unique [OF assms ok(3)] findById_payment_id [OF ok(3)]
      by (simp add: refund_assignments_fields)
    then show "refund_step q (refund_assignments env req ra p)"
      using ok(4) by (simp add: refund_step_def refund_assignments_fields)
  qed
  then show ?thesis
    using processRefund_success_state [OF ok] by simp
qed

lemma webhook_dispatch:
  assumes "RAZORPAY_WEBHOOK_SECRET env = Some secret" "secret \<noteq> []"
    and "wh_signature req =
        Some (hmac_sha256_hex env secret
               (case wh_body req of Buffer raw \<Rightarrow> raw | Parsed ev \<Rightarrow> json_stringify env ev))"
    and "(case wh_body req of Buffer raw \<Rightarrow> json_parse env raw | Parsed ev \<Rightarrow> Inr ev) = Inr event"
  shows "razorpayWebhook env req s
           = (respond 200 True ''Webhook processed'' None, dispatch env event s)"
  using assms by (cases "wh_body req") (simp_all add: razorpayWebhook_def Let_def)

lemma example_webhook_dispatch:
  "razorpayWebhook example_env \<lparr>wh_signature = Some ''webhook_secret/{}'', wh_body = Parsed ev\<rparr> s
     = (respond 200 True ''Webhook processed'' None, dispatch example_env ev s)"
  by (rule webhook_dispatch [where secret = "''webhook_secret''"]) (simp_all add: example_env_def)

lemma captured_assignments_explicit:
  "captured_assignments e p
     = p\<lparr>transactionId := Some (ent_id e), paymentStatus := Completed,
          paymentMethod := (case ent_method e of None \<Rightarrow> paymentMethod p
                            | Some m \<Rightarrow> if m = [] then paymentMethod p else m),
          receiptUrl := (case ent_receipt e of None \<Rightarrow> None
                         | Some u \<Rightarrow> if u = [] then None else Some u),
          metadata := Some ((case metadata p of None \<Rightarrow> Map.empty | Some m \<Rightarrow> m)
                        (''razorpayPayment'' \<mapsto> MetaRazorpay
                           \<lparr>rd_method = ent_method e, rd_bank = ent_bank e,
                            rd_wallet = ent_wallet e, rd_vpa = ent_vpa e,
                            rd_email = ent_email e, rd_contact = ent_contact e\<rparr>))\<rparr>"
  by (simp add: captured_assignments_def merge_metadata_def razorpayPayment_of_def
      js_or_def js_or_null_def truthy_def split: option.splits)

lemma failed_assignments_explicit:
  "failed_assignments e p
     = p\<lparr>transactionId := Some (ent_id e), paymentStatus := Failed,
          notes' := Some (case ent_error_description e of None \<Rightarrow> ''Payment failed''
                          | Some d \<Rightarrow> if d = [] then ''Payment failed'' else d)\<rparr>"
  by (simp add: failed_assignments_def js_or_def split: option.splits)

lemma handlePaymentCaptured_found:
  "findOne_orderId (ent_order_id e) (store s) = Some p \<Longrightarrow>
     handlePaymentCaptured env e s
       = (case db_validate env (store s) (captured_assignments e p) of
            None \<Rightarrow> s\<lparr>store := save (captured_assignments e p) (store s)\<rparr>
          | Some m \<Rightarrow> s)"
  by (simp add: handlePaymentCaptured_def db_save_def split: option.splits)

lemma handlePaymentFailed_found:
  "findOne_orderId (ent_order_id e) (store s) = Some p \<Longrightarrow>
     handlePaymentFailed env e s
       = (case db_validate env (store s) (failed_assignments e p) of
            None \<Rightarrow> s\<lparr>store := save (failed_assignments e p) (store s)\<rparr>
          | Some m \<Rightarrow> s)"
  by (simp add: handlePaymentFailed_def db_save_def split: option.splits)

text \<open>
  Claim C2 as stated fails: a \<^verbatim>\<open>payment.failed\<close> webhook moves a completed
  document, and a cancelled one, to failed, and a \<^verbatim>\<open>payment.captured\<close> webhook
  moves a refunded document to completed.
\<close>

theorem failed_webhook_leaves_completed:
  "paymentStatus example_completed = Completed
   \<and> razorpayWebhook example_env example_failed_webhook (holding example_completed)
       = (respond 200 True ''Webhook processed'' None,
          holding (example_completed\<lparr>transactionId := Some ''pay_2'', paymentStatus := Failed,
                     notes' := Some ''Payment declined''\<rparr>))
   \<and> paymentStatus example_refunded = Refunded
   \<and> razorpayWebhook example_env example_captured_webhook (holding example_refunded)
       = (respond 200 True ''Webhook processed'' None,
          holding (example_refunded\<lparr>paymentStatus := Completed\<rparr>))
   \<and> paymentStatus example_cancelled = Cancelled
   \<and> razorpayWebhook example_env example_failed_webhook (holding example_cancelled)
       = (respond 200 True ''Webhook processed'' None,
          holding (example_cancelled\<lparr>transactionId := Some ''pay_2'', paymentStatus := Failed,
                     notes' := Some ''Payment declined''\<rparr>))"
  by (simp add: razorpayWebhook_def dispatch_def handlePaymentFailed_def handlePaymentCaptured_def
      findOne_orderId_def db_save_def save_def failed_assignments_def captured_assignments_def
      merge_metadata_def razorpayPayment_of_def js_or_def js_or_null_def truthy_def
      example_failed_webhook_def example_captured_webhook_def example_cancelled_def example_defs
      Let_def schema_defs)

text \<open>
  Claim C2, amended. Client verification and the webhooks keep every document's id
  and either leave its status or set it to completed, failed or processing, so
  none of them moves a document into refunded, cancelled or pending. The
  \<^verbatim>\<open>payment.captured\<close> and \<^verbatim>\<open>order.paid\<close> webhooks leave a completed
  document completed. The refund operation, on a collection with distinct ids,
  changes a status only from completed to refunded. No status is protected
  otherwise: when the document is found by the order id and the database accepts the
  write, \<^verbatim>\<open>payment.failed\<close> writes the transaction id, status failed and the
  note, \<^verbatim>\<open>payment.captured\<close> writes the transaction id, status completed and
  the gateway data, and \<^verbatim>\<open>order.paid\<close> writes status completed unless the
  status is completed already, whatever the status was.
\<close>

theorem status_changes_by_operation:
  "list_all2 gateway_step (store s) (store (snd (verifyRazorpayPayment env usr vreq s)))
   \<and> list_all2 gateway_step (store s) (store (snd (razorpayWebhook env wreq s)))
   \<and> list_all2 stays_completed (store s) (store (handlePaymentCaptured env e s))
   \<and> list_all2 stays_completed (store s) (store (handleOrderPaid env oe s))
   \<and> (distinct (map payment_id (store s))
        \<longrightarrow> list_all2 refund_step (store s) (store (snd (processRefund env rreq s))))
   \<and> (\<forall>p p'. findOne_orderId (ent_order_id e) (store s) = Some p
          \<and> p' = p\<lparr>transactionId := Some (ent_id e), paymentStatus := Failed,
                    notes' := Some (case ent_error_description e of None \<Rightarrow> ''Payment failed''
                                    | Some d \<Rightarrow> if d = [] then ''Payment failed'' else d)\<rparr>
          \<and> db_validate env (store s) p' = None
        \<longrightarrow> handlePaymentFailed env e s = s\<lparr>store := save p' (store s)\<rparr>
            \<and> findOne_orderId (ent_order_id e) (save p' (store s)) = Some p')
   \<and> (\<forall>p p'. findOne_orderId (ent_order_id e) (store s) = Some p
          \<and> p' = p\<lparr>transactionId := Some (ent_id e), paymentStatus := Completed,
                    paymentMethod := (case ent_method e of None \<Rightarrow> paymentMethod p
                                      | Some m \<Rightarrow> if m = [] then paymentMethod p else m),
                    receiptUrl := (case ent_receipt e of None \<Rightarrow> None
                                   | Some u \<Rightarrow> if u = [] then None else Some u),
                    metadata := Some ((case metadata p of None \<Rightarrow> Map.empty | Some m \<Rightarrow> m)
                                  (''razorpayPayment'' \<mapsto> MetaRazorpay
                                     \<lparr>rd_method = ent_method e, rd_bank = ent_bank e,
                                      rd_wallet = ent_wallet e, rd_vpa = ent_vpa e,
                                      rd_email = ent_email e, rd_contact = ent_contact e\<rparr>))\<rparr>
          \<and> db_validate env (store s) p' = None
        \<longrightarrow> handlePaymentCaptured env e s = s\<lparr>store := save p' (store s)\<rparr>
            \<and> findOne_orderId (ent_order_id e) (save p' (store s)) = Some p')
   \<and> (\<forall>p. findOne_orderId (oent_id oe) (store s) = Some p \<and> paymentStatus p \<noteq> Completed
          \<and> db_validate env (store s) (p\<lparr>paymentStatus := Completed\<rparr>) = None
        \<longrightarrow> handleOrderPaid env oe s = s\<lparr>store := save (p\<lparr>paymentStatus := Completed\<rparr>) (store s)\<rparr>
            \<and> findOne_orderId (oent_id oe) (save (p\<lparr>paymentStatus := Completed\<rparr>) (store s))
                = Some (p\<lparr>paymentStatus := Completed\<rparr>))"
proof (intro conjI allI impI)
  show "list_all2 gateway_step (store s) (store (snd (verifyRazorpayPayment env usr vreq s)))"
    by (rule verifyRazorpayPayment_step)
  show "list_all2 gateway_step (store s) (store (snd (razorpayWebhook env wreq s)))"
    by (rule razorpayWebhook_step)
  show "list_all2 stays_completed (store s) (store (handlePaymentCaptured env e s))"
    by (rule captured_stays_completed)
  show "list_all2 stays_completed (store s) (store (handleOrderPaid env oe s))"
    by (rule order_paid_stays_completed)
next
  assume "distinct (map payment_id (store s))"
  then show "list_all2 refund_step (store s) (store (snd (processRefund env rreq s)))"
    by (rule processRefund_step)
next
  fix p p'
  assume a: "findOne_orderId (ent_order_id e) (store s) = Some p
          \<and> p' = p\<lparr>transactionId := Some (ent_id e), paymentStatus := Failed,
                    notes' := Some (case ent_error_description e of None \<Rightarrow> ''Payment failed''
                                    | Some d \<Rightarrow> if d = [] then ''Payment failed'' else d)\<rparr>
          \<and> db_validate env (store s) p' = None"
  then have f: "findOne_orderId (ent_order_id e) (store s) = Some p"
    and acc: "db_validate env (store s) p' = None"
    by blast+
  from a have p': "p' = failed_assignments e p"
    unfolding failed_assignments_explicit by blast
  show "handlePaymentFailed env e s = s\<lparr>store := save p' (store s)\<rparr>"
    using handlePaymentFailed_found [OF f, of env] acc by (simp add: p')
  from a show "findOne_orderId (ent_order_id e) (save p' (store s)) = Some p'"
    using findOne_orderId_orderId [of "ent_order_id e" "store s" p]
    by (intro findOne_orderId_save [where p = p]) simp_all
next
  fix p p'
  assume a: "findOne_orderId (ent_order_id e) (store s) = Some p
          \<and> p' = p\<lparr>transactionId := Some (ent_id e), paymentStatus := Completed,
                    paymentMethod := (case ent_method e of None \<Rightarrow> paymentMethod p
                                      | Some m \<Rightarrow> if m = [] then paymentMethod p else m),
                    receiptUrl := (case ent_receipt e of None \<Rightarrow> None
                                   | Some u \<Rightarrow> if u = [] then None else Some u),
                    metadata := Some ((case metadata p of None \<Rightarrow> Map.empty | Some m \<Rightarrow> m)
                                  (''razorpayPayment'' \<mapsto> MetaRazorpay
                                     \<lparr>rd_method = ent_method e, rd_bank = ent_bank e,
                                      rd_wallet = ent_wallet e, rd_vpa = ent_vpa e,
                                      rd_email = ent_email e, rd_contact = ent_contact e\<rparr>))\<rparr>
          \<and> db_validate env (store s) p' = None"
  then have f: "findOne_orderId (ent_order_id e) (store s) = Some p"
    and acc: "db_validate env (store s) p' = None"
    by blast+
  from a have p': "p' = captured_assignments e p"
    unfolding captured_assignments_explicit by blast
  show "handlePaymentCaptured env e s = s\<lparr>store := save p' (store s)\<rparr>"
    using handlePaymentCaptured_found [OF f, of env] acc by (simp add: p')
  from a show "findOne_orderId (ent_order_id e) (save p' (store s)) = Some p'"
    using findOne_orderId_orderId [of "ent_order_id e" "store s" p]
    by (intro findOne_orderId_save [where p = p]) simp_all
next
  fix p
  assume a: "findOne_orderId (oent_id oe) (store s) = Some p \<and> paymentStatus p \<noteq> Completed
          \<and> db_validate env (store s) (p\<lparr>paymentStatus := Completed\<rparr>) = None"
  then show "handleOrderPaid env oe s = s\<lparr>store := save (p\<lparr>paymentStatus := Completed\<rparr>) (store s)\<rparr>"
    by (simp add: handleOrderPaid_def db_save_def)
  from a show "findOne_orderId (oent_id oe) (save (p\<lparr>paymentStatus := Completed\<rparr>) (store s))
                = Some (p\<lparr>paymentStatus := Completed\<rparr>)"
    using findOne_orderId_orderId [of "oent_id oe" "store s" p]
    by (intro findOne_orderId_save [where p = p]) simp_all
qed

theorem status_changes_by_operation_witness:
  "list_all2 gateway_step [example_pending] [example_completed]
   \<and> list_all2 stays_completed [example_completed] [example_completed]
   \<and> list_all2 refund_step [example_completed] [example_refunded]
   \<and> razorpayWebhook example_env example_failed_webhook (holding example_cancelled)
       = (respond 200 True ''Webhook processed'' None,
          holding (example_cancelled\<lparr>transactionId := Some ''pay_2'', paymentStatus := Failed,
                     notes' := Some ''Payment declined''\<rparr>))
   \<and> razorpayWebhook example_env example_order_paid_webhook (holding example_refunded)
       = (respond 200 True ''Webhook processed'' None,
          holding (example_refunded\<lparr>paymentStatus := Completed\<rparr>))
   \<and> razorpayWebhook example_env example_captured_webhook (holding example_cancelled)
       = (respond 200 True ''Webhook processed'' None, holding example_completed)"
proof -
  have "handlePaymentCaptured example_env (example_entity ''pay_1'') (holding example_cancelled)
          = (holding example_cancelled)\<lparr>store := save example_completed
                                                  (store (holding example_cancelled))\<rparr>"
    using status_changes_by_operation [where s = "holding example_cancelled" and env = example_env
        and e = "example_entity ''pay_1''"]
    by (simp add: example_cancelled_def example_defs findOne_orderId_def schema_defs)
  then have k: "handlePaymentCaptured example_env (example_entity ''pay_1'') (holding example_cancelled)
                  = holding example_completed"
    by (simp add: holding_def save_def example_cancelled_def example_pending_def
        example_completed_def)
  have captured: "razorpayWebhook example_env example_captured_webhook (holding example_cancelled)
       = (respond 200 True ''Webhook processed'' None, holding example_completed)"
    unfolding example_captured_webhook_def example_webhook_dispatch
    by (simp add: dispatch_def k)
  have v: "store (snd (verifyRazorpayPayment example_env example_user example_verify_request
                        (holding example_pending))) = [example_completed]"
    unfolding example_verify_run by (simp add: holding_def)
  have c: "handlePaymentCaptured example_env (example_entity ''pay_1'') (holding example_completed)
             = holding example_completed"
    by (simp add: handlePaymentCaptured_def findOne_orderId_def db_save_def save_def
        captured_assignments_def merge_metadata_def razorpayPayment_of_def js_or_def js_or_null_def
        truthy_def example_defs schema_defs)
  have r: "store (snd (processRefund example_env example_refund_request (holding example_completed)))
             = [example_refunded]"
    unfolding example_refund_run by (simp add: holding_def)
  have h: "\<And>p. store (holding p) = [p]" by (simp add: holding_def)
  let ?e = "(example_entity ''pay_2'')
              \<lparr>ent_status := ''failed'', ent_error_description := Some ''Payment declined''\<rparr>"
  let ?failed = "example_cancelled\<lparr>transactionId := Some ''pay_2'', paymentStatus := Failed,
                     notes' := Some ''Payment declined''\<rparr>"
  have "handlePaymentFailed example_env ?e (holding example_cancelled)
          = (holding example_cancelled)\<lparr>store := save ?failed (store (holding example_cancelled))\<rparr>"
    using status_changes_by_operation [where s = "holding example_cancelled" and env = example_env
        and e = ?e]
    by (simp add: example_cancelled_def example_defs findOne_orderId_def schema_defs)
  then have f: "handlePaymentFailed example_env ?e (holding example_cancelled) = holding ?failed"
    by (simp add: holding_def save_def)
  let ?paid = "example_refunded\<lparr>paymentStatus := Completed\<rparr>"
  have "handleOrderPaid example_env \<lparr>oent_id = ''order_1''\<rparr> (holding example_refunded)
          = (holding example_refunded)\<lparr>store := save ?paid (store (holding example_refunded))\<rparr>"
    using status_changes_by_operation [where s = "holding example_refunded" and env = example_env
        and oe = "\<lparr>oent_id = ''order_1''\<rparr>"]
    by (simp add: example_defs findOne_orderId_def schema_defs)
  then have o: "handleOrderPaid example_env \<lparr>oent_id = ''order_1''\<rparr> (holding example_refunded)
                  = holding ?paid"
    by (simp add: holding_def save_def)
  have "list_all2 gateway_step (store (holding example_pending))
          (store (snd (verifyRazorpayPayment example_env example_user example_verify_request
                        (holding example_pending))))"
    using status_changes_by_operation [where s = "holding example_pending" and env = example_env
        and usr = example_user and vreq = example_verify_request]
    by simp
  moreover have "list_all2 stays_completed (store (holding example_completed))
          (store (handlePaymentCaptured example_env (example_entity ''pay_1'') (holding example_completed)))
      \<and> list_all2 refund_step (store (holding example_completed))
          (store (snd (processRefund example_env example_refund_request (holding example_completed))))"
    using status_changes_by_operation [where s = "holding example_completed" and env = example_env
        and e = "example_entity ''pay_1''" and rreq = example_refund_request]
    by (simp add: h)
  moreover have "razorpayWebhook example_env example_failed_webhook (holding example_cancelled)
       = (respond 200 True ''Webhook processed'' None, holding ?failed)"
    unfolding example_failed_webhook_def example_webhook_dispatch
    by (simp add: dispatch_def f)
  moreover have "razorpayWebhook example_env example_order_paid_webhook (holding example_refunded)
       = (respond 200 True ''Webhook processed'' None, holding ?paid)"
    unfolding example_order_paid_webhook_def example_webhook_dispatch
    by (simp add: dispatch_def o)
  ultimately show ?thesis using captured by (simp add: v c r h)
qed

subsection \<open>Client verification and webhook in either order\<close>





subsection \<open>Refund fields and status\<close>

lemma in_set_save: "q \<in> set (save p' ps) \<Longrightarrow> q = p' \<or> q \<in> set ps"
  by (auto simp: save_def split: if_splits)

lemma findOne_orderId_in_set: "findOne_orderId oid ps = Some p \<Longrightarrow> p \<in> set ps"
  by (auto simp: findOne_orderId_def find_Some_iff)

lemma length_save: "length (save p' ps) = length ps"
  by (simp add: save_def)

lemma map_payment_id_save: "map payment_id (save p' ps) = map payment_id ps"
  by (induction ps) (auto simp: save_def)

lemma store_rel_same: "store_rel op ps n ps n"
  by (simp add: store_rel_def)

lemma store_rel_save: "p \<in> set ps \<Longrightarrow> rewrite_ok op p p' \<Longrightarrow> store_rel op ps n (save p' ps) n"
  by (auto simp: store_rel_def)

lemma store_rel_new:
  "fresh_document p' \<Longrightarrow> payment_id p' = n \<Longrightarrow> store_rel op ps n (ps @ [p']) (Suc n)"
  by (simp add: store_rel_def)

lemma store_step_same: "store_step op s s"
  by (simp add: store_step_def store_rel_same)

lemma store_step_save:
  "p \<in> set (store s) \<Longrightarrow> rewrite_ok op p p' \<Longrightarrow> store_step op s (s\<lparr>store := save p' (store s)\<rparr>)"
  by (simp add: store_step_def store_rel_save)

lemma db_save_shape:
  assumes "p \<in> set (store s)" "rewrite_ok op p p'"
  shows "store_step op s (case db_save env p' s of Inl m \<Rightarrow> s | Inr s' \<Rightarrow> s')"
  by (cases "db_validate env (store s) p'")
    (simp_all add: db_save_def store_step_same store_step_save [OF assms])

text \<open>The rewrites the handlers make.\<close>

lemma rewrite_ok_gateway:
  "\<not> is_refund op \<Longrightarrow> payment_id p' = payment_id p \<Longrightarrow> same_refund_fields p p' \<Longrightarrow>
   paymentStatus p' \<in> {Completed, Failed, Processing} \<Longrightarrow> rewrite_ok op p p'"
  by (simp add: rewrite_ok_def refund_fields_step_def)

lemma rewrite_ok_captured: "\<not> is_refund op \<Longrightarrow> rewrite_ok op p (captured_assignments e p)"
  by (rule rewrite_ok_gateway) (simp_all add: captured_assignments_def same_refund_fields_def)

lemma rewrite_ok_failed: "\<not> is_refund op \<Longrightarrow> rewrite_ok op p (failed_assignments e p)"
  by (rule rewrite_ok_gateway) (simp_all add: failed_assignments_def same_refund_fields_def)

lemma rewrite_ok_paid: "\<not> is_refund op \<Longrightarrow> rewrite_ok op p (p\<lparr>paymentStatus := Completed\<rparr>)"
  by (rule rewrite_ok_gateway) (simp_all add: same_refund_fields_def)

lemma rewrite_ok_invalid:
  "\<not> is_refund op \<Longrightarrow> rewrite_ok op p (invalid_signature_assignments p)"
  by (rule rewrite_ok_gateway)
    (simp_all add: invalid_signature_assignments_def same_refund_fields_def)

lemma rewrite_ok_verified:
  "\<not> is_refund op \<Longrightarrow> rewrite_ok op p (verified_assignments pid rp p)"
  by (rule rewrite_ok_gateway)
    (simp_all add: verified_assignments_def same_refund_fields_def Let_def)

lemma rewrite_ok_status:
  "rewrite_ok (PutStatus r) p (status_assignments req p)"
  by (simp add: rewrite_ok_def refund_fields_step_def same_refund_fields_def is_status_update_def
      is_refund_def status_assignments_def Let_def split: option.splits)

lemma rewrite_ok_refund:
  "0 < ra \<Longrightarrow> paymentStatus p = Completed \<Longrightarrow>
     rewrite_ok (PutRefund r) p (refund_assignments env req ra p)"
  by (simp add: rewrite_ok_def refund_fields_step_def refund_fields_set_def is_refund_def
      refund_assignments_def Let_def)

text \<open>Every handler makes a step of one of the three shapes.\<close>

lemma createPayment_shape: "store_step op s (snd (createPayment env usr req s))"
  by (auto simp: createPayment_def db_create_def Let_def store_step_def store_rel_same
      fresh_document_def refund_fields_empty_def intro!: store_rel_new split: option.splits)

lemma createRazorpayOrder_state:
  "createRazorpayOrder env a b c d s = (r, s1) \<Longrightarrow> s1 = s \<or> (\<exists>opts. s1 = called (OrdersCreate opts) s)"
  by (auto simp: createRazorpayOrder_def Let_def split: sum.splits)

lemma createRazorpayOrderHandler_shape:
  "store_step op s (snd (createRazorpayOrderHandler env usr req s))"
  by (auto simp: createRazorpayOrderHandler_def db_create_def Let_def store_step_def
      store_rel_same fresh_document_def refund_fields_empty_def called_def
      dest!: createRazorpayOrder_state intro!: store_rel_new
      split: option.splits if_splits sum.splits prod.splits)

lemma updatePaymentStatus_shape:
  "store_step (PutStatus r) s (snd (updatePaymentStatus env req s))"
proof (cases "findById (us_id req) (store s)")
  case None
  then show ?thesis by (simp add: updatePaymentStatus_def store_step_same)
next
  case (Some p)
  from db_save_shape [OF findById_in_set [OF Some] rewrite_ok_status, of r env req]
  show ?thesis using Some by (simp add: updatePaymentStatus_def split: sum.splits)
qed

lemma processRefund_shape:
  "store_step (PutRefund r) s (snd (processRefund env req s))"
proof (cases "status_code (fst (processRefund env req s)) = 200")
  case False
  then have "snd (processRefund env req s) = s" by (rule processRefund_rejected)
  then show ?thesis by (simp add: store_step_same)
next
  case True
  then obtain ra p where ok: "rf_refundAmount req = Some ra" "0 < ra"
      "findById (rf_id req) (store s) = Some p" "paymentStatus p = Completed"
      "refundAmount p \<le> 0" "ra \<le> amount p"
      "db_validate env (store s) (refund_assignments env req ra p) = None"
    unfolding processRefund_success by blast
  show ?thesis
    unfolding processRefund_success_state [OF ok] snd_conv
    by (rule store_step_save [OF findById_in_set [OF ok(3)] rewrite_ok_refund [OF ok(2,4)]])
qed

lemma handlePaymentCaptured_shape:
  assumes "\<not> is_refund op"
  shows "store_step op s (handlePaymentCaptured env e s)"
proof (cases "findOne_orderId (ent_order_id e) (store s)")
  case None
  then show ?thesis by (simp add: handlePaymentCaptured_def store_step_same)
next
  case (Some p)
  from db_save_shape [OF findOne_orderId_in_set [OF Some] rewrite_ok_captured [OF assms], of env e]
  show ?thesis using Some by (simp add: handlePaymentCaptured_def)
qed

lemma handlePaymentFailed_shape:
  assumes "\<not> is_refund op"
  shows "store_step op s (handlePaymentFailed env e s)"
proof (cases "findOne_orderId (ent_order_id e) (store s)")
  case None
  then show ?thesis by (simp add: handlePaymentFailed_def store_step_same)
next
  case (Some p)
  from db_save_shape [OF findOne_orderId_in_set [OF Some] rewrite_ok_failed [OF assms], of env e]
  show ?thesis using Some by (simp add: handlePaymentFailed_def)
qed

lemma handleOrderPaid_shape:
  assumes "\<not> is_refund op"
  shows "store_step op s (handleOrderPaid env e s)"
proof (cases "findOne_orderId (oent_id e) (store s)")
  case None
  then show ?thesis by (simp add: handleOrderPaid_def store_step_same)
next
  case (Some p)
  from db_save_shape [OF findOne_orderId_in_set [OF Some] rewrite_ok_paid [OF assms], of env]
  show ?thesis using Some by (simp add: handleOrderPaid_def store_step_same)
qed

lemma razorpayWebhook_shape:
  assumes "\<not> is_refund op"
  shows "store_step op s (snd (razorpayWebhook env req s))"
proof (cases "snd (razorpayWebhook env req s) = s")
  case True
  then show ?thesis by (simp add: store_step_same)
next
  case False
  then obtain event where "snd (razorpayWebhook env req s) = dispatch env event s"
    by (auto simp: razorpayWebhook_def Let_def split: option.splits if_splits sum.splits)
  then show ?thesis
    by (cases event)
      (simp_all add: dispatch_def store_step_same handlePaymentCaptured_shape [OF assms]
        handlePaymentFailed_shape [OF assms] handleOrderPaid_shape [OF assms])
qed

lemma verifyRazorpayPayment_shape:
  assumes "\<not> is_refund op"
  shows "store_step op s (snd (verifyRazorpayPayment env usr req s))"
proof -
  have fetch: "getPaymentDetails env pid s = (r, s1) \<Longrightarrow>
      s1 = s \<or> s1 = called (PaymentsFetch pid) s" for pid r s1
    by (auto simp: getPaymentDetails_def split: sum.splits)
  have saved: "db_save env p' t = Inr t' \<Longrightarrow> t' = t\<lparr>store := save p' (store t)\<rparr>" for p' t t'
    by (auto simp: db_save_def split: option.splits)
  have inv: "store_rel op ps n (save (invalid_signature_assignments p) ps) n"
    if "p \<in> set ps" for p ps n
    by (rule store_rel_save [OF that rewrite_ok_invalid [OF assms]])
  have ver: "store_rel op ps n (save (verified_assignments pid rp p) ps) n"
    if "p \<in> set ps" for p pid rp ps n
    by (rule store_rel_save [OF that rewrite_ok_verified [OF assms]])
  show ?thesis
    by (auto simp: verifyRazorpayPayment_def Let_def store_step_def store_rel_same called_def
        dest!: saved fetch findOne_orderId_in_set
        intro: inv ver
        split: option.splits sum.splits prod.splits if_splits)
qed

lemma handle_shape: "store_step op s (snd (handle env op s))"
  by (cases op)
    (simp_all add: handle_def createPayment_shape updatePaymentStatus_shape processRefund_shape
      createRazorpayOrderHandler_shape verifyRazorpayPayment_shape razorpayWebhook_shape
      is_refund_def)

text \<open>What a step of these shapes keeps.\<close>

lemma store_step_ids:
  assumes "ids_fresh s" "store_step op s s'"
  shows "ids_fresh s'"
proof -
  from assms(1) have d: "distinct (map payment_id (store s))"
    and b: "\<And>q. q \<in> set (store s) \<Longrightarrow> payment_id q < next_id s"
    by (auto simp: ids_fresh_def)
  from assms(2) consider
      (same) "store s' = store s" "next_id s' = next_id s"
    | (saved) p p' where "p \<in> set (store s)" "rewrite_ok op p p'"
        "store s' = save p' (store s)" "next_id s' = next_id s"
    | (new) p' where "payment_id p' = next_id s" "store s' = store s @ [p']"
        "next_id s' = Suc (next_id s)"
    unfolding store_step_def store_rel_def by blast
  then show ?thesis
  proof cases
    case same
    then show ?thesis using assms(1) by (simp add: ids_fresh_def)
  next
    case saved
    have id: "payment_id p' = payment_id p"
      using saved(2) by (simp add: rewrite_ok_def refund_fields_step_def)
    have "payment_id q < next_id s" if "q \<in> set (save p' (store s))" for q
      using in_set_save [OF that] b [OF saved(1)] b [of q] id by auto
    then show ?thesis using d saved by (simp add: ids_fresh_def map_payment_id_save)
  next
    case new
    have "next_id s \<notin> payment_id ` set (store s)" using b by force
    then show ?thesis using d b new by (auto simp: ids_fresh_def less_Suc_eq)
  qed
qed

lemma store_step_position:
  assumes "distinct (map payment_id (store s))" "store_step op s s'"
  shows "list_all2 (refund_fields_step op) (store s) (take (length (store s)) (store s'))
         \<and> list_all fresh_document (drop (length (store s)) (store s'))"
proof -
  have refl: "refund_fields_step op q q" for q
    by (simp add: refund_fields_step_def same_refund_fields_def)
  have same: "list_all2 (refund_fields_step op) ps ps" for ps
    by (simp add: list_all2_same refl)
  from assms(2) consider
      "store s' = store s"
    | p p' where "p \<in> set (store s)" "rewrite_ok op p p'" "store s' = save p' (store s)"
    | p' where "fresh_document p'" "store s' = store s @ [p']"
    unfolding store_step_def store_rel_def by blast
  then show ?thesis
  proof cases
    case 1
    then show ?thesis by (simp add: same)
  next
    case 2
    have id: "payment_id p' = payment_id p"
      using 2(2) by (simp add: rewrite_ok_def refund_fields_step_def)
    have inj: "inj_on payment_id (set (store s))"
      using assms(1) by (simp add: distinct_map)
    have "list_all2 (refund_fields_step op) (store s) (save p' (store s))"
    proof (rule list_all2_save)
      fix q assume "q \<in> set (store s)"
      then show "refund_fields_step op q q" by (rule_tac refl)
    next
      fix q assume "q \<in> set (store s)" "payment_id q = payment_id p'"
      then have "q = p" using inj 2(1) id by (auto dest: inj_onD)
      then show "refund_fields_step op q p'" using 2(2) by (simp add: rewrite_ok_def)
    qed
    then show ?thesis by (simp add: 2(3) length_save)
  next
    case 3
    then show ?thesis by (simp add: same)
  qed
qed

lemma store_step_member:
  assumes "store_step op s s'" "p' \<in> set (store s')"
  shows "p' \<in> set (store s) \<or> (\<exists>p \<in> set (store s). rewrite_ok op p p') \<or> fresh_document p'"
proof -
  from assms(1) consider
      (same) "store s' = store s"
    | (saved) p q where "p \<in> set (store s)" "rewrite_ok op p q" "store s' = save q (store s)"
    | (new) q where "fresh_document q" "store s' = store s @ [q]"
    unfolding store_step_def store_rel_def by blast
  then show ?thesis
  proof cases
    case same
    with assms(2) show ?thesis by simp
  next
    case saved
    from assms(2) have "p' = q \<or> p' \<in> set (store s)"
      unfolding saved(3) by (rule in_set_save)
    with saved(1,2) show ?thesis by blast
  next
    case new
    with assms(2) show ?thesis by auto
  qed
qed

lemma consistent_step:
  assumes "\<forall>p \<in> set (store s). refund_fields_consistent p"
  shows "\<forall>p \<in> set (store (snd (handle env op s))). refund_fields_consistent p"
proof
  fix p' assume "p' \<in> set (store (snd (handle env op s)))"
  from store_step_member [OF handle_shape this] assms
  show "refund_fields_consistent p'"
    by (auto simp: rewrite_ok_def refund_fields_step_def refund_fields_consistent_def
        same_refund_fields_def refund_fields_empty_def refund_fields_set_def fresh_document_def)
qed

lemma refunded_step:
  assumes "\<forall>p \<in> set (store s). paymentStatus p = Refunded \<longrightarrow> refund_fields_set p"
    and "\<not> is_status_update op"
  shows "\<forall>p \<in> set (store (snd (handle env op s))). paymentStatus p = Refunded \<longrightarrow> refund_fields_set p"
proof
  fix p' assume "p' \<in> set (store (snd (handle env op s)))"
  from store_step_member [OF handle_shape this] assms
  show "paymentStatus p' = Refunded \<longrightarrow> refund_fields_set p'"
    by (auto simp: rewrite_ok_def fresh_document_def)
qed

lemma consistent_run:
  "\<forall>p \<in> set (store s). refund_fields_consistent p \<Longrightarrow>
     \<forall>p \<in> set (store (run env ops s)). refund_fields_consistent p"
proof (induction ops arbitrary: s)
  case Nil
  then show ?case by simp
next
  case (Cons op ops)
  show ?case using Cons.IH [OF consistent_step [OF Cons.prems]] by simp
qed

lemma refunded_run:
  "\<forall>p \<in> set (store s). paymentStatus p = Refunded \<longrightarrow> refund_fields_set p \<Longrightarrow>
   \<forall>op \<in> set ops. \<not> is_status_update op \<Longrightarrow>
     \<forall>p \<in> set (store (run env ops s)). paymentStatus p = Refunded \<longrightarrow> refund_fields_set p"
proof (induction ops arbitrary: s)
  case Nil
  then show ?case by simp
next
  case (Cons op ops)
  from Cons.prems have "\<not> is_status_update op" "\<forall>op \<in> set ops. \<not> is_status_update op"
    by simp_all
  then show ?case using Cons.IH [OF refunded_step [OF Cons.prems(1)]] by simp
qed

lemma ids_fresh_run: "ids_fresh s \<Longrightarrow> ids_fresh (run env ops s)"
proof (induction ops arbitrary: s)
  case Nil
  then show ?case by simp
next
  case (Cons op ops)
  show ?case using Cons.IH [OF store_step_ids [OF Cons.prems handle_shape]] by simp
qed

lemma scenario_order:
  "store (snd (createRazorpayOrderHandler example_env example_user example_order_request empty_state))
     = [example_pending]"
  by (simp add: createRazorpayOrderHandler_def createRazorpayOrder_def getRazorpayInstance_def
      truthy_def db_create_def called_def example_order_request_def empty_state_def example_defs
      Let_def with_default_def schema_defs)

lemma scenario_mark_refunded:
  "store s = [example_pending] \<Longrightarrow>
     store (snd (updatePaymentStatus example_env mark_refunded_request s))
       = [example_pending\<lparr>paymentStatus := Refunded\<rparr>]"
  by (simp add: updatePaymentStatus_def findById_def db_save_def save_def status_assignments_def
      truthy_def mark_refunded_request_def example_defs Let_def schema_defs)

lemma scenario_verify:
  "store s = [example_pending] \<Longrightarrow>
     store (snd (verifyRazorpayPayment example_env example_user example_verify_request s))
       = [example_completed]"
  by (simp add: verifyRazorpayPayment_def verifyPaymentSignature_def getPaymentDetails_def
      getRazorpayInstance_def called_def findOne_orderId_def db_save_def save_def
      verified_assignments_def merge_metadata_def razorpayPayment_of_def js_or_def js_or_null_def
      truthy_def example_verify_request_def example_defs Let_def schema_defs)

lemma scenario_refund:
  "store s = [example_completed] \<Longrightarrow>
     store (snd (processRefund example_env example_refund_request s)) = [example_refunded]"
  by (simp add: processRefund_def findById_def db_save_def save_def refund_assignments_def
      js_or_def truthy_def example_refund_request_def example_defs Let_def schema_defs)

lemma scenario_order_paid:
  "store s = [example_refunded] \<Longrightarrow>
     store (snd (razorpayWebhook example_env example_order_paid_webhook s))
       = [example_refunded\<lparr>paymentStatus := Completed\<rparr>]"
  by (simp add: razorpayWebhook_def dispatch_def handleOrderPaid_def findOne_orderId_def
      db_save_def save_def example_order_paid_webhook_def example_defs Let_def schema_defs)

text \<open>
  Claim C8 as stated fails: after an order creation, the status update can mark the
  document refunded while its refund fields are empty; and after a refund, an
  \<^verbatim>\<open>order.paid\<close> webhook sets the document completed while its refund fields
  stay set.
\<close>

theorem refund_fields_not_tied_to_status:
  "store (run example_env [PostCreateOrder example_user example_order_request,
                           PutStatus mark_refunded_request] empty_state)
     = [example_pending\<lparr>paymentStatus := Refunded\<rparr>]
   \<and> refund_fields_empty (example_pending\<lparr>paymentStatus := Refunded\<rparr>)
   \<and> store (run example_env [PostCreateOrder example_user example_order_request,
                             PostVerify example_user example_verify_request,
                             PutRefund example_refund_request,
                             PostWebhook example_order_paid_webhook] empty_state)
     = [example_refunded\<lparr>paymentStatus := Completed\<rparr>]
   \<and> refund_fields_set (example_refunded\<lparr>paymentStatus := Completed\<rparr>)"
proof (intro conjI)
  show "store (run example_env [PostCreateOrder example_user example_order_request,
                           PutStatus mark_refunded_request] empty_state)
     = [example_pending\<lparr>paymentStatus := Refunded\<rparr>]"
    by (simp add: handle_def scenario_order scenario_mark_refunded)
  show "refund_fields_empty (example_pending\<lparr>paymentStatus := Refunded\<rparr>)"
    by (simp add: refund_fields_empty_def example_pending_def)
  show "store (run example_env [PostCreateOrder example_user example_order_request,
                             PostVerify example_user example_verify_request,
                             PutRefund example_refund_request,
                             PostWebhook example_order_paid_webhook] empty_state)
     = [example_refunded\<lparr>paymentStatus := Completed\<rparr>]"
    by (simp add: handle_def scenario_order scenario_verify scenario_refund scenario_order_paid)
  show "refund_fields_set (example_refunded\<lparr>paymentStatus := Completed\<rparr>)"
    by (simp add: refund_fields_set_def example_refunded_def)
qed

text \<open>
  Claim C8, amended. In every state reached from the empty collection by any sequence
  of operations the ids of the documents are distinct and the refund fields of
  every document are all empty or all set. When the sequence has no status update,
  every document whose status is refunded has its refund fields set. Only the
  refund operation writes the refund fields: an operation on a collection with
  distinct ids keeps every document in its place under its id, with its refund
  fields as they were, unless the operation is the refund and the document was
  completed, and then the fields are set and the status is refunded; what an
  operation adds to the collection has empty refund fields and status pending.
\<close>

theorem refund_fields_along_runs:
  "(\<forall>p \<in> set (store (run env ops empty_state)). refund_fields_empty p \<or> refund_fields_set p)
   \<and> ((\<forall>op \<in> set ops. \<not> is_status_update op) \<longrightarrow>
        (\<forall>p \<in> set (store (run env ops empty_state)).
           paymentStatus p = Refunded \<longrightarrow> refund_fields_set p))
   \<and> distinct (map payment_id (store (run env ops empty_state)))
   \<and> (distinct (map payment_id (store s)) \<longrightarrow>
        list_all2 (refund_fields_step op) (store s)
          (take (length (store s)) (store (snd (handle env op s))))
        \<and> list_all fresh_document (drop (length (store s)) (store (snd (handle env op s)))))"
proof (intro conjI impI)
  have "\<forall>p \<in> set (store (run env ops empty_state)). refund_fields_consistent p"
    by (rule consistent_run) (simp add: empty_state_def)
  then show "\<forall>p \<in> set (store (run env ops empty_state)). refund_fields_empty p \<or> refund_fields_set p"
    by (simp add: refund_fields_consistent_def)
next
  assume "\<forall>op \<in> set ops. \<not> is_status_update op"
  then show "\<forall>p \<in> set (store (run env ops empty_state)).
           paymentStatus p = Refunded \<longrightarrow> refund_fields_set p"
    by (intro refunded_run) (simp_all add: empty_state_def)
next
  have "ids_fresh (run env ops empty_state)"
    by (rule ids_fresh_run) (simp add: ids_fresh_def empty_state_def)
  then show "distinct (map payment_id (store (run env ops empty_state)))"
    by (simp add: ids_fresh_def)
next
  assume d: "distinct (map payment_id (store s))"
  from store_step_position [OF d handle_shape]
  show "list_all2 (refund_fields_step op) (store s)
          (take (length (store s)) (store (snd (handle env op s))))"
    and "list_all fresh_document (drop (length (store s)) (store (snd (handle env op s))))"
    by simp_all
qed

theorem refund_fields_along_runs_witness:
  "store (run example_env [PostCreateOrder example_user example_order_request,
                           PostVerify example_user example_verify_request,
                           PutRefund example_refund_request] empty_state)
     = [example_refunded]
   \<and> paymentStatus example_refunded = Refunded
   \<and> refund_fields_set example_refunded
   \<and> refund_fields_step (PutRefund example_refund_request) example_completed example_refunded
   \<and> fresh_document example_pending"
proof -
  let ?ops = "[PostCreateOrder example_user example_order_request,
               PostVerify example_user example_verify_request,
               PutRefund example_refund_request]"
  have st: "store (run example_env ?ops empty_state) = [example_refunded]"
    by (simp add: handle_def scenario_order scenario_verify scenario_refund)
  have refunded: "paymentStatus example_refunded = Refunded"
    by (simp add: example_refunded_def)
  have "\<forall>op \<in> set ?ops. \<not> is_status_update op"
    by (simp add: is_status_update_def)
  with refund_fields_along_runs [of example_env ?ops]
  have "\<forall>p \<in> set (store (run example_env ?ops empty_state)).
          paymentStatus p = Refunded \<longrightarrow> refund_fields_set p"
    by blast
  with st refunded have set: "refund_fields_set example_refunded" by simp
  have "handle example_env (PutRefund example_refund_request) (holding example_completed)
          = processRefund example_env example_refund_request (holding example_completed)"
    by (simp add: handle_def)
  then have "store (snd (handle example_env (PutRefund example_refund_request)
                          (holding example_completed)))
          = [example_refunded]"
    unfolding example_refund_run by (simp add: holding_def)
  with refund_fields_along_runs [where s = "holding example_completed" and env = example_env
      and op = "PutRefund example_refund_request"]
  have step: "refund_fields_step (PutRefund example_refund_request) example_completed example_refunded"
    by (simp add: holding_def)
  have "store (snd (handle example_env (PostCreateOrder example_user example_order_request)
                 empty_state)) = [example_pending]"
    by (simp add: handle_def scenario_order)
  with refund_fields_along_runs [where s = empty_state and env = example_env
      and op = "PostCreateOrder example_user example_order_request"]
  have new: "fresh_document example_pending"
    by (simp add: empty_state_def)
  from st refunded set step new show ?thesis by simp
qed

end
